theory Spec2Isabelle
  imports Complex_Main "HOL-Library.Multiset"
begin

chapter \<open>A shallow embedding of the quantsage trading pipeline\<close>

text \<open>
  Python floats are modelled by \<^typ>\<open>real\<close>: every arithmetic step is exact, and the one
  float operation of the sources that raises, division by zero, is written out as an
  error branch wherever the source divides without a guard. A \<open>datetime\<close> is the number of
  seconds since some epoch (\<^typ>\<open>int\<close>), so that the \<open>.days\<close> of a difference is a floor
  division by 86400. Python strings that act as tags (\<open>'OPEN'\<close>, \<open>'LONG'\<close>, \<open>'BUY'\<close>) stay
  strings, so that every comparison of the source is the same comparison here.
\<close>

type_synonym datetime = int

datatype py_error = ZeroDivisionError | TypeError | ValueError | DatabaseError

section \<open>Position (src/portfolio/position.py)\<close>

record position =
  position_id :: int
  symbol :: string
  asset_type :: string
  side :: string
  entry_price :: real
  quantity :: real
  entry_time :: datetime
  strategy_id :: string
  stop_loss :: "real option"
  take_profit :: "real option"
  entry_commission :: real
  exit_commission :: real
  status :: string
  exit_price :: "real option"
  exit_time :: "datetime option"
  pnl_realized :: real
  pnl_unrealized :: real

text \<open>\<open>Position.__init__\<close>: a new position is open, with no exit data and no P&L.\<close>

definition Position_init ::
  "int \<Rightarrow> string \<Rightarrow> string \<Rightarrow> string \<Rightarrow> real \<Rightarrow> real \<Rightarrow> datetime \<Rightarrow> string \<Rightarrow>
   real option \<Rightarrow> real option \<Rightarrow> real \<Rightarrow> position" where
  "Position_init pid symb atype sd eprice qty etime strat sl tp commission =
     \<lparr>position_id = pid, symbol = symb, asset_type = atype, side = sd,
      entry_price = eprice, quantity = qty, entry_time = etime, strategy_id = strat,
      stop_loss = sl, take_profit = tp,
      entry_commission = commission, exit_commission = 0,
      status = ''OPEN'', exit_price = None, exit_time = None,
      pnl_realized = 0, pnl_unrealized = 0\<rparr>"

text \<open>
  Every method takes the object and returns its result together with the object after
  the call, so that a method that assigns no field returns the object it was given.
\<close>

definition update_market_price :: "position \<Rightarrow> real \<Rightarrow> real \<times> position" where
  "update_market_price self current_price =
     (if status self \<noteq> ''OPEN'' then (0, self)
      else
        let price_diff = (if side self = ''LONG'' then current_price - entry_price self
                          else entry_price self - current_price);
            self' = self\<lparr>pnl_unrealized := price_diff * quantity self - entry_commission self\<rparr>
        in (pnl_unrealized self', self'))"

text \<open>
  \<open>get_return_pct\<close> is only read by the log line of \<open>close\<close>; both of its divisions are
  behind the two zero tests of the source.
\<close>

definition get_return_pct :: "position \<Rightarrow> real" where
  "get_return_pct self =
     (if entry_price self = 0 then 0
      else
        let cost_basis = entry_price self * quantity self in
        if cost_basis = 0 then 0
        else if status self = ''OPEN'' then (pnl_unrealized self / cost_basis) * 100
        else (pnl_realized self / cost_basis) * 100)"

definition close :: "position \<Rightarrow> real \<Rightarrow> datetime \<Rightarrow> real \<Rightarrow> real \<times> position" where
  "close self exit_price' exit_time' commission =
     (if status self = ''CLOSED'' then (pnl_realized self, self)
      else
        let s1 = self\<lparr>exit_price := Some exit_price', exit_time := Some exit_time',
                      exit_commission := commission, status := ''CLOSED''\<rparr>;
            price_diff = (if side s1 = ''LONG'' then exit_price' - entry_price s1
                          else entry_price s1 - exit_price');
            s2 = s1\<lparr>pnl_realized :=
                       price_diff * quantity s1 - (entry_commission s1 + exit_commission s1)\<rparr>;
            s3 = s2\<lparr>pnl_unrealized := 0\<rparr>
        in (pnl_realized s3, s3))"

definition should_stop_loss :: "position \<Rightarrow> real \<Rightarrow> bool \<times> position" where
  "should_stop_loss self current_price =
     (case stop_loss self of
        None \<Rightarrow> (False, self)
      | Some sl \<Rightarrow>
          if status self \<noteq> ''OPEN'' then (False, self)
          else if side self = ''LONG'' then (current_price \<le> sl, self)
          else (current_price \<ge> sl, self))"

definition should_take_profit :: "position \<Rightarrow> real \<Rightarrow> bool \<times> position" where
  "should_take_profit self current_price =
     (case take_profit self of
        None \<Rightarrow> (False, self)
      | Some tp \<Rightarrow>
          if status self \<noteq> ''OPEN'' then (False, self)
          else if side self = ''LONG'' then (current_price \<ge> tp, self)
          else (current_price \<le> tp, self))"

definition get_value :: "position \<Rightarrow> real \<Rightarrow> real \<times> position" where
  "get_value self current_price =
     (if status self \<noteq> ''OPEN'' then (0, self)
      else if side self = ''LONG'' then (quantity self * current_price, self)
      else
        let initial_proceeds = quantity self * entry_price self;
            current_cost = quantity self * current_price
        in (initial_proceeds - current_cost, self))"



section \<open>The storage collaborator (src/data/storage.py)\<close>

text \<open>
  A row of the \<open>positions\<close> table. The \<open>metadata\<close> column holds the JSON text of a dict
  or NULL; the dict is an association list here and NULL is \<open>None\<close>.
\<close>

record position_row =
  row_id :: int
  row_symbol :: string
  row_asset_type :: string
  row_side :: string
  row_quantity :: real
  row_entry_price :: real
  row_entry_time :: datetime
  row_strategy_id :: string
  row_metadata :: "(string \<times> real) list option"
  row_status :: string
  row_exit_price :: "real option"
  row_exit_time :: "datetime option"
  row_pnl_realized :: "real option"

text \<open>
  The description of a risk event is the reason text the risk manager formats. The
  texts are f-strings around numbers; a reason is kept as the case it reports together
  with those numbers, not as characters.
\<close>

datatype rejection_reason =
    BreakerActive
  | DailyLossBreached real real
  | MaxDrawdownBreached real real
  | PositionSizeExceeds real real
  | StopLossMissing
  | StopLossTooTight real real
  | StopLossTooWide real real
  | SymbolExposureExceeds real real real real
  | SymbolCheckFailed py_error
  | PortfolioExposureExceeds real real real real
  | PortfolioCheckFailed py_error
  | ProcessingError py_error

record risk_event_row =
  re_event_type :: string
  re_severity :: string
  re_description :: "rejection_reason option"
  re_symbol :: string
  re_asset_type :: string
  re_strategy_id :: string

text \<open>
  The database is its two tables and a flag that says whether sqlite answers: with
  \<open>db_ok\<close> false every statement raises inside the storage method, and the method takes
  the \<open>except\<close> branch the source gives it.
\<close>

record database =
  db_positions :: "position_row list"
  db_risk_events :: "risk_event_row list"
  db_ok :: bool

definition empty_database :: database where
  "empty_database = \<lparr>db_positions = [], db_risk_events = [], db_ok = True\<rparr>"

text \<open>\<open>DatabaseManager.query\<close> has no \<open>try\<close>: a failing statement raises to the caller.\<close>

definition query_open_by_id :: "database \<Rightarrow> int \<Rightarrow> py_error + position_row list" where
  "query_open_by_id db pid =
     (if db_ok db
      then Inr (filter (\<lambda>r. row_id r = pid \<and> row_status r = ''OPEN'') (db_positions db))
      else Inl DatabaseError)"

definition query_by_id :: "database \<Rightarrow> int \<Rightarrow> py_error + position_row list" where
  "query_by_id db pid =
     (if db_ok db then Inr (filter (\<lambda>r. row_id r = pid) (db_positions db))
      else Inl DatabaseError)"

text \<open>
  Modelled from the spec: \<open>schema.sql\<close>, which declares the \<open>positions\<close> table, is not
  among the sources. A position is created OPEN (the spec's status is one of OPEN and
  CLOSED, and a position is created on its first opening fill), with no exit data, and
  rows are numbered 1, 2, ... in the order of insertion (sqlite's \<open>lastrowid\<close> for a table
  no row of which is ever deleted). On a failing statement \<open>create_position\<close> returns -1.
\<close>

definition create_position ::
  "database \<Rightarrow> string \<Rightarrow> string \<Rightarrow> string \<Rightarrow> real \<Rightarrow> real \<Rightarrow> datetime \<Rightarrow> string \<Rightarrow>
   (string \<times> real) list \<Rightarrow> database \<times> int" where
  "create_position db symb atype sd qty eprice etime strat metadata =
     (if db_ok db then
        let new_id = int (length (db_positions db)) + 1;
            row = \<lparr>row_id = new_id, row_symbol = symb, row_asset_type = atype, row_side = sd,
                   row_quantity = qty, row_entry_price = eprice, row_entry_time = etime,
                   row_strategy_id = strat,
                   row_metadata = (if metadata = [] then None else Some metadata),
                   row_status = ''OPEN'', row_exit_price = None, row_exit_time = None,
                   row_pnl_realized = None\<rparr>
        in (db\<lparr>db_positions := db_positions db @ [row]\<rparr>, new_id)
      else (db, - 1))"

text \<open>
  \<open>update_position(position_id, **kwargs)\<close>: the keyword arguments are a function on
  the row; the result says whether a row was changed.
\<close>

definition update_position ::
  "database \<Rightarrow> int \<Rightarrow> (position_row \<Rightarrow> position_row) \<Rightarrow> database \<times> bool" where
  "update_position db pid upd =
     (if db_ok db then
        (db\<lparr>db_positions := map (\<lambda>r. if row_id r = pid then upd r else r) (db_positions db)\<rparr>,
         \<exists>r \<in> set (db_positions db). row_id r = pid)
      else (db, False))"

definition db_log_risk_event :: "database \<Rightarrow> risk_event_row \<Rightarrow> database \<times> bool" where
  "db_log_risk_event db ev =
     (if db_ok db then (db\<lparr>db_risk_events := db_risk_events db @ [ev]\<rparr>, True)
      else (db, False))"

section \<open>Events (src/core/events.py)\<close>

record fill_event =
  fill_symbol :: string
  fill_asset_type :: string
  fill_side :: string
  fill_quantity :: real
  fill_price :: real
  fill_commission :: real
  fill_timestamp :: datetime
  fill_strategy_id :: "string option"

record position_update_event =
  pu_position_id :: int
  pu_symbol :: string
  pu_side :: string
  pu_quantity :: real
  pu_entry_price :: real
  pu_pnl_realized :: real
  pu_status :: string

text \<open>
  \<open>PositionUpdateEvent\<close> is a dataclass: its generated \<open>__init__\<close> takes the fields of
  \<open>Event\<close> and its own, and any other keyword raises \<open>TypeError\<close>.
\<close>

definition PositionUpdateEvent_fields :: "string list" where
  "PositionUpdateEvent_fields =
     [''type'', ''timestamp'', ''data'', ''position_id'', ''symbol'', ''asset_type'', ''side'',
      ''quantity'', ''entry_price'', ''current_price'', ''pnl_realized'', ''pnl_unrealized'',
      ''status'', ''strategy_id'']"

definition dataclass_init :: "string list \<Rightarrow> string list \<Rightarrow> 'a \<Rightarrow> py_error + 'a" where
  "dataclass_init field_names kwargs obj =
     (if list_all (\<lambda>k. k \<in> set field_names) kwargs then Inr obj else Inl TypeError)"

section \<open>The backtest portfolio manager (src/backtesting/portfolio.py)\<close>

record portfolio_manager =
  cash :: real
  positions :: "string \<rightharpoonup> int"

definition PortfolioManager_init :: "real \<Rightarrow> portfolio_manager" where
  "PortfolioManager_init initial_cash = \<lparr>cash = initial_cash, positions = Map.empty\<rparr>"

text \<open>
  A handler's outcome: the manager and the database after the call, the events it
  published, and the exception that left it, if any. What was assigned before a raise
  stays assigned.
\<close>

record pm_outcome =
  pm_after :: portfolio_manager
  db_after :: database
  pm_published :: "position_update_event list"
  pm_raised :: "py_error option"

definition get_open_position ::
  "portfolio_manager \<Rightarrow> database \<Rightarrow> string \<Rightarrow> py_error + position_row option" where
  "get_open_position self db symb =
     (case positions self symb of
        None \<Rightarrow> Inr None
      | Some pid \<Rightarrow>
          (case query_open_by_id db pid of
             Inl e \<Rightarrow> Inl e
           | Inr [] \<Rightarrow> Inr None
           | Inr (r # _) \<Rightarrow> Inr (Some r)))"

text \<open>
  \<open>_publish_position_update\<close> passes the keyword \<open>exit_price\<close>, which the dataclass does
  not have.
\<close>

definition publish_position_update_kwargs :: "string list" where
  "publish_position_update_kwargs =
     [''timestamp'', ''type'', ''position_id'', ''symbol'', ''asset_type'', ''side'', ''quantity'',
      ''entry_price'', ''exit_price'', ''pnl_realized'', ''pnl_unrealized'', ''status'']"

definition publish_position_update ::
  "database \<Rightarrow> int \<Rightarrow> string \<Rightarrow> real \<Rightarrow> py_error + position_update_event list" where
  "publish_position_update db pid st realized_pnl =
     (case query_by_id db pid of
        Inl e \<Rightarrow> Inl e
      | Inr [] \<Rightarrow> Inr []
      | Inr (r # _) \<Rightarrow>
          (case dataclass_init PositionUpdateEvent_fields publish_position_update_kwargs
                  \<lparr>pu_position_id = pid, pu_symbol = row_symbol r, pu_side = row_side r,
                   pu_quantity = row_quantity r, pu_entry_price = row_entry_price r,
                   pu_pnl_realized = realized_pnl, pu_status = st\<rparr> of
             Inl e \<Rightarrow> Inl e
           | Inr ev \<Rightarrow> Inr [ev]))"

definition outcome_of ::
  "portfolio_manager \<Rightarrow> database \<Rightarrow> py_error + position_update_event list \<Rightarrow> pm_outcome" where
  "outcome_of self db r =
     (case r of
        Inl e \<Rightarrow> \<lparr>pm_after = self, db_after = db, pm_published = [], pm_raised = Some e\<rparr>
      | Inr evs \<Rightarrow> \<lparr>pm_after = self, db_after = db, pm_published = evs, pm_raised = None\<rparr>)"

definition open_position :: "portfolio_manager \<Rightarrow> database \<Rightarrow> fill_event \<Rightarrow> pm_outcome" where
  "open_position self db fill =
     (let cash_change =
            (if fill_side fill = ''BUY''
             then - (fill_quantity fill * fill_price fill + fill_commission fill)
             else fill_quantity fill * fill_price fill - fill_commission fill);
          self1 = self\<lparr>cash := cash self + cash_change\<rparr>;
          (db1, pid) = create_position db (fill_symbol fill) (fill_asset_type fill)
                         (if fill_side fill = ''BUY'' then ''LONG'' else ''SHORT'')
                         (fill_quantity fill) (fill_price fill) (fill_timestamp fill)
                         (case fill_strategy_id fill of None \<Rightarrow> ''unknown'' | Some s \<Rightarrow> s)
                         [(''entry_commission'', fill_commission fill)];
          self2 = self1\<lparr>positions := (positions self1)(fill_symbol fill \<mapsto> pid)\<rparr>
      in outcome_of self2 db1 (publish_position_update db1 pid ''OPEN'' 0))"

definition calculate_realized_pnl :: "position_row \<Rightarrow> fill_event \<Rightarrow> real" where
  "calculate_realized_pnl pos fill =
     (let entry_price' = row_entry_price pos;
          exit_price' = fill_price fill;
          qty = min (row_quantity pos) (fill_quantity fill);
          metadata = (case row_metadata pos of None \<Rightarrow> [] | Some m \<Rightarrow> m);
          entry_commission' = (case map_of metadata ''entry_commission'' of
                                 None \<Rightarrow> 0 | Some c \<Rightarrow> c);
          exit_commission' = fill_commission fill;
          total_commission = entry_commission' + exit_commission'
      in if row_side pos = ''LONG''
         then (exit_price' - entry_price') * qty - total_commission
         else (entry_price' - exit_price') * qty - total_commission)"

definition close_position ::
  "portfolio_manager \<Rightarrow> database \<Rightarrow> position_row \<Rightarrow> fill_event \<Rightarrow> pm_outcome" where
  "close_position self db pos fill =
     (let realized_pnl = calculate_realized_pnl pos fill;
          cash_change =
            (if fill_side fill = ''SELL''
             then fill_quantity fill * fill_price fill - fill_commission fill
             else - (fill_quantity fill * fill_price fill + fill_commission fill));
          self1 = self\<lparr>cash := cash self + cash_change\<rparr>;
          (db1, _) = update_position db (row_id pos)
                       (\<lambda>r. r\<lparr>row_exit_price := Some (fill_price fill),
                               row_exit_time := Some (fill_timestamp fill),
                               row_pnl_realized := Some realized_pnl,
                               row_status := ''CLOSED''\<rparr>);
          self2 = self1\<lparr>positions := (positions self1)(fill_symbol fill := None)\<rparr>
      in case publish_position_update db1 (row_id pos) ''CLOSED'' realized_pnl of
           Inl e \<Rightarrow> outcome_of self2 db1 (Inl e)
         | Inr evs \<Rightarrow>
             if row_entry_price pos * row_quantity pos = 0
             then \<lparr>pm_after = self2, db_after = db1, pm_published = evs,
                   pm_raised = Some ZeroDivisionError\<rparr>
             else outcome_of self2 db1 (Inr evs))"

definition add_to_position ::
  "portfolio_manager \<Rightarrow> database \<Rightarrow> position_row \<Rightarrow> fill_event \<Rightarrow> pm_outcome" where
  "add_to_position self db pos fill =
     (let existing_cost = row_quantity pos * row_entry_price pos;
          new_cost = fill_quantity fill * fill_price fill;
          total_quantity = row_quantity pos + fill_quantity fill
      in if total_quantity = 0 then outcome_of self db (Inl ZeroDivisionError)
         else
           let new_avg_price = (existing_cost + new_cost) / total_quantity;
               cash_change =
                 (if fill_side fill = ''BUY''
                  then - (fill_quantity fill * fill_price fill + fill_commission fill)
                  else fill_quantity fill * fill_price fill - fill_commission fill);
               self1 = self\<lparr>cash := cash self + cash_change\<rparr>;
               (db1, _) = update_position db (row_id pos)
                            (\<lambda>r. r\<lparr>row_quantity := total_quantity,
                                    row_entry_price := new_avg_price\<rparr>)
           in outcome_of self1 db1 (Inr []))"

definition on_fill :: "portfolio_manager \<Rightarrow> database \<Rightarrow> fill_event \<Rightarrow> pm_outcome" where
  "on_fill self db fill =
     (case get_open_position self db (fill_symbol fill) of
        Inl e \<Rightarrow> outcome_of self db (Inl e)
      | Inr None \<Rightarrow> open_position self db fill
      | Inr (Some existing_position) \<Rightarrow>
          let position_side = row_side existing_position;
              is_closing = (position_side = ''LONG'' \<and> fill_side fill = ''SELL'')
                         \<or> (position_side = ''SHORT'' \<and> fill_side fill = ''BUY'')
          in if is_closing then close_position self db existing_position fill
             else add_to_position self db existing_position fill)"


text \<open>The two fills of the P&L scenario (tests/test_backtest.py).\<close>

definition scenario_buy_fill :: fill_event where
  "scenario_buy_fill =
     \<lparr>fill_symbol = ''BTC/USDT'', fill_asset_type = ''CRYPTO'', fill_side = ''BUY'',
      fill_quantity = 1, fill_price = 50000, fill_commission = 300, fill_timestamp = 0,
      fill_strategy_id = Some ''test''\<rparr>"

definition scenario_sell_fill :: fill_event where
  "scenario_sell_fill =
     \<lparr>fill_symbol = ''BTC/USDT'', fill_asset_type = ''CRYPTO'', fill_side = ''SELL'',
      fill_quantity = 1, fill_price = 52000, fill_commission = 312, fill_timestamp = 3600,
      fill_strategy_id = Some ''test''\<rparr>"


section \<open>The simulated execution engine (src/backtesting/execution.py)\<close>

record order_event =
  order_id :: string
  ord_symbol :: string
  ord_asset_type :: string
  ord_side :: string
  ord_order_type :: string
  ord_quantity :: real
  ord_price :: "real option"
  ord_stop_price :: "real option"
  ord_strategy_id :: string
  ord_position_id :: "int option"

record bar =
  bar_open :: real
  bar_high :: real
  bar_low :: real
  bar_close :: real
  bar_volume :: "real option"

record slippage_params =
  base_slippage :: "real option"
  volume_impact :: "real option"

definition default_slippage_params :: slippage_params where
  "default_slippage_params = \<lparr>base_slippage = None, volume_impact = None\<rparr>"

definition base_slippage_pct :: "slippage_params \<Rightarrow> real" where
  "base_slippage_pct params = (case base_slippage params of None \<Rightarrow> 0.001 | Some v \<Rightarrow> v)"

definition volume_impact_factor :: "slippage_params \<Rightarrow> real" where
  "volume_impact_factor params = (case volume_impact params of None \<Rightarrow> 0.00001 | Some v \<Rightarrow> v)"

definition validate_order :: "(string \<rightharpoonup> bar) \<Rightarrow> order_event \<Rightarrow> bool \<times> string option" where
  "validate_order current_bars order =
     (if order_id order = [] then (False, Some ''Missing order_id'')
      else if ord_symbol order = [] then (False, Some ''Missing symbol'')
      else if ord_side order = [] \<or> ord_side order \<notin> {''BUY'', ''SELL''}
        then (False, Some ''Invalid side'')
      else if ord_quantity order \<le> 0 then (False, Some ''Invalid quantity'')
      else if current_bars (ord_symbol order) = None then (False, Some ''No current bar'')
      else (True, None))"

definition calculate_slippage ::
  "slippage_params \<Rightarrow> order_event \<Rightarrow> real \<Rightarrow> bar \<Rightarrow> py_error + real" where
  "calculate_slippage params order base_price b =
     (let base_slippage' = base_price * base_slippage_pct params;
          order_value = ord_quantity order * base_price;
          bar_volume' = (case bar_volume b of None \<Rightarrow> 0 | Some v \<Rightarrow> v)
      in if bar_volume' > 0 \<and> max (bar_volume' * bar_close b) order_value = 0
         then Inl ZeroDivisionError
         else
           let volume_slippage =
                 (if bar_volume' > 0
                  then let bar_volume_value = bar_volume' * bar_close b;
                           volume_pct = order_value / max bar_volume_value order_value
                       in base_price * (volume_pct * volume_impact_factor params)
                  else 0);
               volatility_slippage =
                 (if bar_close b > 0
                  then let bar_range = (bar_high b - bar_low b) / bar_close b
                       in base_price * (bar_range * 0.5)
                  else 0);
               total_slippage = min (base_slippage' + volume_slippage + volatility_slippage)
                                    (base_price * 0.02)
           in Inr total_slippage)"

definition calculate_fill_price :: "slippage_params \<Rightarrow> order_event \<Rightarrow> bar \<Rightarrow> py_error + real" where
  "calculate_fill_price params order b =
     (let base_price = (if ord_side order = ''BUY'' then bar_high b else bar_low b)
      in case calculate_slippage params order base_price b of
           Inl e \<Rightarrow> Inl e
         | Inr slippage_amount \<Rightarrow>
             if ord_side order = ''BUY'' then Inr (base_price + slippage_amount)
             else Inr (base_price - slippage_amount))"

text \<open>The three terms of the slippage, as the specification writes them.\<close>

definition spec_slippage :: "slippage_params \<Rightarrow> real \<Rightarrow> real \<Rightarrow> bar \<Rightarrow> real" where
  "spec_slippage params qty base_price b =
     min (base_price * base_slippage_pct params
          + (case bar_volume b of
               None \<Rightarrow> 0
             | Some v \<Rightarrow> if v > 0
                 then base_price * (qty * base_price / max (v * bar_close b) (qty * base_price)
                                    * volume_impact_factor params)
                 else 0)
          + (if bar_close b > 0
             then base_price * ((bar_high b - bar_low b) / bar_close b * 0.5) else 0))
         (0.02 * base_price)"

text \<open>Orders, bars and parameters used as concrete inputs below.\<close>

definition test_buy_order :: order_event where
  "test_buy_order = \<lparr>order_id = ''TEST-BUY-001'', ord_symbol = ''BTC/USDT'', ord_asset_type = ''CRYPTO'',
     ord_side = ''BUY'', ord_order_type = ''MARKET'', ord_quantity = 1, ord_price = None,
     ord_stop_price = None, ord_strategy_id = ''test'', ord_position_id = None\<rparr>"

definition test_bar :: bar where
  "test_bar = \<lparr>bar_open = 40000, bar_high = 40500, bar_low = 39500, bar_close = 40200,
               bar_volume = Some 100\<rparr>"

definition inverted_bar :: bar where
  "inverted_bar = \<lparr>bar_open = 100, bar_high = 100, bar_low = 200, bar_close = 100,
                   bar_volume = None\<rparr>"

definition flat_bar :: bar where
  "flat_bar = \<lparr>bar_open = 100, bar_high = 100, bar_low = 100, bar_close = 100,
                   bar_volume = None\<rparr>"

definition rebate_params :: slippage_params where
  "rebate_params = \<lparr>base_slippage = Some (- 0.01), volume_impact = None\<rparr>"


section \<open>The event bus (src/core/event_bus.py)\<close>

datatype event_type =
  MARKET_DATA | SIGNAL | ORDER | FILL | POSITION_UPDATE | RISK_ALERT | PERFORMANCE_METRIC | SYSTEM

record 'p event =
  ev_type :: event_type
  ev_timestamp :: datetime
  ev_payload :: 'p

text \<open>
  An event carries its type, its timestamp and a payload \<open>'p\<close>. A handler is a Python
  callable; what the bus can observe of a call is modelled as its result: the events the
  handler published on the bus (in order), the state \<open>'w\<close> of the subscribed components
  after the call, and whether the call raised an \<open>Exception\<close>. What a handler did before
  it raised stays done. Handlers that subscribe or unsubscribe while they run, or that
  call \<open>process_events\<close> themselves, are outside this model; the components of this
  repository only publish. A handler has a \<open>__name__\<close>, as functions, lambdas and bound
  methods do: the log lines of \<open>subscribe\<close> and of the \<open>except\<close> branch read it.
\<close>

type_synonym ('p, 'w) handler = "'p event \<Rightarrow> 'w \<Rightarrow> 'p event list \<times> 'w \<times> bool"

record ('p, 'w) event_bus =
  mode :: string
  subscribers :: "event_type \<Rightarrow> ('p, 'w) handler list"
  event_queue :: "'p event list"
  event_history :: "'p event list option"
  running :: bool

definition EventBus_init :: "string \<Rightarrow> ('p, 'w) event_bus" where
  "EventBus_init m =
     \<lparr>mode = m, subscribers = (\<lambda>_. []), event_queue = [],
      event_history = (if m = ''backtest'' then Some [] else None), running = False\<rparr>"

definition subscribe ::
  "('p, 'w) event_bus \<Rightarrow> event_type \<Rightarrow> ('p, 'w) handler \<Rightarrow> ('p, 'w) event_bus" where
  "subscribe self et h = self\<lparr>subscribers := (subscribers self)(et := subscribers self et @ [h])\<rparr>"

text \<open>
  \<open>publish\<close> appends to the history, if there is one, and to the queue. Its body calls
  no handler, so the model takes no component state and calls none.
\<close>

definition publish :: "('p, 'w) event_bus \<Rightarrow> 'p event \<Rightarrow> ('p, 'w) event_bus" where
  "publish self e =
     self\<lparr>event_history := (case event_history self of None \<Rightarrow> None | Some h \<Rightarrow> Some (h @ [e])),
          event_queue := event_queue self @ [e]\<rparr>"

text \<open>
  \<open>_dispatch_event\<close> calls every handler subscribed to the event's type, in the order of
  subscription, each inside \<open>try\<close>/\<open>except Exception\<close>: the \<open>raised\<close> flag of a call
  is logged and otherwise unused. The record of a call is that flag and what the call
  published.
\<close>

type_synonym 'p call = "bool \<times> 'p event list"

fun call_handlers ::
  "('p, 'w) handler list \<Rightarrow> 'p event \<Rightarrow> ('p, 'w) event_bus \<Rightarrow> 'w \<Rightarrow>
   ('p, 'w) event_bus \<times> 'w \<times> 'p call list" where
  "call_handlers [] e self w = (self, w, [])"
| "call_handlers (h # hs) e self w =
     (case h e w of (pubs, w1, raised) \<Rightarrow>
        (case call_handlers hs e (foldl publish self pubs) w1 of (self2, w2, calls) \<Rightarrow>
           (self2, w2, (raised, pubs) # calls)))"

definition dispatch_event ::
  "('p, 'w) event_bus \<Rightarrow> 'p event \<Rightarrow> 'w \<Rightarrow> ('p, 'w) event_bus \<times> 'w \<times> 'p call list" where
  "dispatch_event self e w = call_handlers (subscribers self (ev_type e)) e self w"

type_synonym 'p dispatch_trace = "('p event \<times> 'p call list) list"

text \<open>
  \<open>process_events\<close> is the loop \<open>while not self.event_queue.empty()\<close>. Handlers may
  publish without bound, so the loop need not end: \<open>fuel\<close> bounds the number of events
  taken from the queue and \<open>None\<close> says that the queue was not empty when it ran out.
\<close>

fun process_events ::
  "nat \<Rightarrow> ('p, 'w) event_bus \<Rightarrow> 'w \<Rightarrow> (('p, 'w) event_bus \<times> 'w \<times> 'p dispatch_trace) option" where
  "process_events 0 self w =
     (case event_queue self of [] \<Rightarrow> Some (self, w, []) | e # rest \<Rightarrow> None)"
| "process_events (Suc n) self w =
     (case event_queue self of
        [] \<Rightarrow> Some (self, w, [])
      | e # rest \<Rightarrow>
          (case dispatch_event (self\<lparr>event_queue := rest\<rparr>) e w of (self1, w1, calls) \<Rightarrow>
             (case process_events n self1 w1 of
                None \<Rightarrow> None
              | Some (self2, w2, tr) \<Rightarrow> Some (self2, w2, (e, calls) # tr))))"

text \<open>What a run published, and the same handlers and runs with every raise removed.\<close>

definition published_by :: "'p call list \<Rightarrow> 'p event list" where
  "published_by calls = concat (map snd calls)"

definition published_during :: "'p dispatch_trace \<Rightarrow> 'p event list" where
  "published_during tr = concat (map (\<lambda>(e, calls). published_by calls) tr)"

definition quiet :: "('p, 'w) handler \<Rightarrow> ('p, 'w) handler" where
  "quiet h = (\<lambda>e w. case h e w of (pubs, w1, raised) \<Rightarrow> (pubs, w1, False))"

definition quiet_bus :: "('p, 'w) event_bus \<Rightarrow> ('p, 'w) event_bus" where
  "quiet_bus self = self\<lparr>subscribers := (\<lambda>t. map quiet (subscribers self t))\<rparr>"

definition unraised :: "'p dispatch_trace \<Rightarrow> 'p dispatch_trace" where
  "unraised tr = map (\<lambda>(e, calls). (e, map (\<lambda>(raised, pubs). (False, pubs)) calls)) tr"

text \<open>A cascade used as a concrete input: payloads are numbers, the world is a log.\<close>

definition demo_rank :: "nat event \<Rightarrow> nat" where
  "demo_rank e = (if ev_type e = SIGNAL then 2 else if ev_type e = ORDER then 1 else 0)"

definition demo_failing :: "(nat, nat list) handler" where
  "demo_failing = (\<lambda>e w. ([], w, True))"

definition demo_risk :: "(nat, nat list) handler" where
  "demo_risk = (\<lambda>e w. ([e\<lparr>ev_type := ORDER\<rparr>], w @ [ev_payload e], False))"

definition demo_execution :: "(nat, nat list) handler" where
  "demo_execution = (\<lambda>e w. ([e\<lparr>ev_type := FILL\<rparr>], w @ [ev_payload e + 100], False))"

definition demo_bus :: "(nat, nat list) event_bus" where
  "demo_bus =
     publish (publish
       (subscribe (subscribe (subscribe (EventBus_init ''backtest'') SIGNAL demo_failing)
          SIGNAL demo_risk) ORDER demo_execution)
       \<lparr>ev_type = SIGNAL, ev_timestamp = 0, ev_payload = 1\<rparr>)
       \<lparr>ev_type = SIGNAL, ev_timestamp = 0, ev_payload = 2\<rparr>"


section \<open>The performance calculator (src/backtesting/metrics.py)\<close>

text \<open>
  The calculator works on pandas series of floats. Two things pandas does are not
  followed by a model over the reals, and the model says so instead of inventing a
  value: arithmetic that leaves the finite floats (a division by zero gives \<open>nan\<close> or
  \<open>inf\<close> in numpy, not an exception), and label slices of an index whose timestamps do
  not increase strictly. Both are the outcome \<open>NotModelled\<close>; an exception of the source
  is \<open>Raises\<close>.
\<close>

datatype failure = Raises py_error | NotModelled

type_synonym equity_series = "(datetime \<times> real) list"

text \<open>\<open>Series.expanding().max()\<close>: the running maximum.\<close>

fun expanding_max_from :: "real \<Rightarrow> real list \<Rightarrow> real list" where
  "expanding_max_from m [] = []"
| "expanding_max_from m (x # xs) = max m x # expanding_max_from (max m x) xs"

fun expanding_max :: "real list \<Rightarrow> real list" where
  "expanding_max [] = []"
| "expanding_max (x # xs) = x # expanding_max_from x xs"

text \<open>\<open>Series.min()\<close> and \<open>Series.max()\<close> of a series that is not empty.\<close>

fun series_min :: "real list \<Rightarrow> real" where
  "series_min [] = 0"
| "series_min (x # xs) = fold min xs x"

fun series_max :: "real list \<Rightarrow> real" where
  "series_max [] = 0"
| "series_max (x # xs) = fold max xs x"

text \<open>\<open>idxmin\<close> and \<open>idxmax\<close> return the label of the first occurrence; here, its position.\<close>

fun first_index :: "('a \<Rightarrow> bool) \<Rightarrow> 'a list \<Rightarrow> nat option" where
  "first_index P [] = None"
| "first_index P (x # xs) =
     (if P x then Some 0 else map_option Suc (first_index P xs))"

definition idxmin :: "real list \<Rightarrow> nat" where
  "idxmin xs = (case first_index (\<lambda>x. x = series_min xs) xs of None \<Rightarrow> 0 | Some i \<Rightarrow> i)"

definition idxmax :: "real list \<Rightarrow> nat" where
  "idxmax xs = (case first_index (\<lambda>x. x = series_max xs) xs of None \<Rightarrow> 0 | Some i \<Rightarrow> i)"

text \<open>The \<open>.days\<close> of the difference of two timestamps.\<close>

definition days_between :: "datetime \<Rightarrow> datetime \<Rightarrow> int" where
  "days_between later earlier = (later - earlier) div 86400"

definition mean :: "real list \<Rightarrow> real" where
  "mean xs = sum_list xs / real (length xs)"

definition calculate_max_drawdown :: "equity_series \<Rightarrow> failure + (real \<times> real \<times> int)" where
  "calculate_max_drawdown equity_series =
     (let index = map fst equity_series;
          values = map snd equity_series;
          running_max = expanding_max values
      in if equity_series = [] then Inl (Raises ValueError)
         else if \<not> sorted_wrt (<) index \<or> 0 \<in> set running_max then Inl NotModelled
         else
           let drawdown = map2 (\<lambda>v m. v - m) values running_max;
               drawdown_pct = map2 (\<lambda>d m. d / m) drawdown running_max;
               max_dd_pct = series_min drawdown_pct;
               max_dd_dollars = series_min drawdown
           in if max_dd_pct = 0 then Inr (0, 0, 0)
              else
                let max_dd_idx = idxmin drawdown_pct;
                    peak_idx = idxmax (take (Suc max_dd_idx) running_max);
                    recovery_idx = filter (\<lambda>i. values ! i \<ge> running_max ! max_dd_idx)
                                     [max_dd_idx ..< length values];
                    duration = (case recovery_idx of
                                  i # _ \<Rightarrow> days_between (index ! i) (index ! peak_idx)
                                | [] \<Rightarrow> days_between (last index) (index ! peak_idx))
                in Inr (max_dd_pct, max_dd_dollars, duration))"

record drawdown_metrics =
  max_drawdown :: real
  max_drawdown_pct :: real
  avg_drawdown :: real
  max_dd_duration_days :: int

definition calculate_drawdown :: "equity_series \<Rightarrow> failure + drawdown_metrics" where
  "calculate_drawdown equity_series =
     (case calculate_max_drawdown equity_series of
        Inl f \<Rightarrow> Inl f
      | Inr (max_dd_pct, max_dd_dollars, duration) \<Rightarrow>
          let values = map snd equity_series;
              running_max = expanding_max values;
              drawdown = map2 (\<lambda>v m. v - m) values running_max;
              drawdown_pct = map2 (\<lambda>d m. d / m) drawdown running_max;
              negative_drawdowns = filter (\<lambda>d. d < 0) drawdown_pct;
              avg = (if length negative_drawdowns > 0 then mean negative_drawdowns else 0)
          in Inr \<lparr>max_drawdown = max_dd_dollars, max_drawdown_pct = max_dd_pct,
                  avg_drawdown = avg, max_dd_duration_days = duration\<rparr>)"

text \<open>The equity curve of the drawdown scenario: six consecutive days from \<open>d0\<close>.\<close>

definition scenario_curve :: "datetime \<Rightarrow> equity_series" where
  "scenario_curve d0 =
     [(d0, 100000), (d0 + 86400, 95000), (d0 + 2 * 86400, 90000), (d0 + 3 * 86400, 95000),
      (d0 + 4 * 86400, 100000), (d0 + 5 * 86400, 105000)]"

text \<open>
  A trade is a dict read from the \<open>positions\<close> table. \<open>t.get('status')\<close> is
  \<open>tr_status\<close>. \<open>t.get('pnl_realized', 0)\<close> distinguishes a missing key (\<open>None\<close> here,
  read as 0) from a key whose value is NULL (\<open>Some None\<close>), which the comparison
  \<open>p > 0\<close> rejects with \<open>TypeError\<close>. The two times are \<open>Some\<close> when the key holds a
  value that \<open>pd.Timestamp\<close> accepts; in every other case the source adds no duration.
\<close>

record trade =
  tr_status :: "string option"
  tr_pnl_realized :: "real option option"
  tr_entry_time :: "datetime option"
  tr_exit_time :: "datetime option"

text \<open>\<open>profit_factor\<close> is \<open>float('inf')\<close> when there are no losses.\<close>

datatype ratio = Finite real | Infinity

record trade_metrics =
  total_trades :: nat
  winning_trades :: nat
  losing_trades :: nat
  win_rate :: real
  profit_factor :: ratio
  expectancy :: real
  avg_win :: real
  avg_loss :: real
  max_win :: real
  max_loss :: real
  avg_trade_duration_hours :: real

definition zero_trade_metrics :: trade_metrics where
  "zero_trade_metrics =
     \<lparr>total_trades = 0, winning_trades = 0, losing_trades = 0, win_rate = 0,
      profit_factor = Finite 0, expectancy = 0, avg_win = 0, avg_loss = 0, max_win = 0,
      max_loss = 0, avg_trade_duration_hours = 0\<rparr>"

definition trade_duration_hours :: "trade \<Rightarrow> real list" where
  "trade_duration_hours t =
     (case (tr_entry_time t, tr_exit_time t) of
        (Some entry, Some exit) \<Rightarrow> [real_of_int (exit - entry) / 3600]
      | _ \<Rightarrow> [])"

definition calculate_trade_stats :: "trade list \<Rightarrow> failure + trade_metrics" where
  "calculate_trade_stats trades =
     (let closed_trades = filter (\<lambda>t. tr_status t = Some ''CLOSED'') trades
      in if closed_trades = [] then Inr zero_trade_metrics
         else
           let pnls = map (\<lambda>t. case tr_pnl_realized t of None \<Rightarrow> Some 0 | Some v \<Rightarrow> v)
                        closed_trades
           in if None \<in> set pnls then Inl (Raises TypeError)
              else
                let ps = map the pnls;
                    winners = filter (\<lambda>p. p > 0) ps;
                    losers = filter (\<lambda>p. p < 0) ps;
                    total = length closed_trades;
                    winning = length winners;
                    losing = length losers;
                    rate = (if total > 0 then real winning / real total else 0);
                    a_win = (if winners \<noteq> [] then mean winners else 0);
                    a_loss = (if losers \<noteq> [] then mean losers else 0);
                    m_win = (if winners \<noteq> [] then series_max winners else 0);
                    m_loss = (if losers \<noteq> [] then series_min losers else 0);
                    total_wins = sum_list winners;
                    total_losses = \<bar>sum_list losers\<bar>;
                    pf = (if total_losses > 0 then Finite (total_wins / total_losses)
                          else Infinity);
                    expect = rate * a_win - (1 - rate) * \<bar>a_loss\<bar>;
                    durations = concat (map trade_duration_hours closed_trades);
                    avg_duration = (if durations \<noteq> [] then mean durations else 0)
                in Inr \<lparr>total_trades = total, winning_trades = winning, losing_trades = losing,
                        win_rate = rate, profit_factor = pf, expectancy = expect,
                        avg_win = a_win, avg_loss = a_loss, max_win = m_win, max_loss = m_loss,
                        avg_trade_duration_hours = avg_duration\<rparr>)"

record returns_metrics =
  total_return :: real
  total_return_pct :: real
  cagr :: real
  annualized_return :: real

record risk_metrics =
  sharpe_ratio :: real
  sortino_ratio :: real
  calmar_ratio :: real
  volatility :: real

record monthly_metrics =
  best_month :: real
  worst_month :: real
  avg_month :: real
  positive_months_pct :: real
  monthly_returns :: "(datetime \<times> real) list option"

record metrics =
  returns :: returns_metrics
  risk_adjusted :: risk_metrics
  drawdown :: drawdown_metrics
  trades :: trade_metrics
  monthly :: monthly_metrics

record performance_calculator =
  equity_curve :: equity_series
  pc_trades :: "trade list"
  initial_capital :: real
  start_date :: datetime
  end_date :: datetime
  risk_free_rate :: real

text \<open>
  \<open>_calculate_returns\<close>, \<open>_calculate_risk_adjusted\<close> and \<open>_calculate_monthly_returns\<close>
  are pandas statistics (percentage changes, standard deviations, real powers, calendar
  resampling) that no property below depends on: they are parameters of
  \<open>calculate_all\<close>, each free to fail.
\<close>

record statistics =
  calculate_returns :: "performance_calculator \<Rightarrow> failure + returns_metrics"
  calculate_risk_adjusted :: "performance_calculator \<Rightarrow> failure + risk_metrics"
  calculate_monthly_returns :: "performance_calculator \<Rightarrow> failure + monthly_metrics"

definition empty_metrics :: metrics where
  "empty_metrics =
     \<lparr>returns = \<lparr>total_return = 0, total_return_pct = 0, cagr = 0, annualized_return = 0\<rparr>,
      risk_adjusted = \<lparr>sharpe_ratio = 0, sortino_ratio = 0, calmar_ratio = 0, volatility = 0\<rparr>,
      drawdown = \<lparr>max_drawdown = 0, max_drawdown_pct = 0, avg_drawdown = 0,
                  max_dd_duration_days = 0\<rparr>,
      trades = \<lparr>total_trades = 0, winning_trades = 0, losing_trades = 0, win_rate = 0,
                profit_factor = Finite 0, expectancy = 0, avg_win = 0, avg_loss = 0,
                max_win = 0, max_loss = 0, avg_trade_duration_hours = 0\<rparr>,
      monthly = \<lparr>best_month = 0, worst_month = 0, avg_month = 0, positive_months_pct = 0,
                 monthly_returns = None\<rparr>\<rparr>"

definition calculate_all :: "statistics \<Rightarrow> performance_calculator \<Rightarrow> failure + metrics" where
  "calculate_all stats self =
     (if length (equity_curve self) < 2 then Inr empty_metrics
      else
        case calculate_returns stats self of Inl f \<Rightarrow> Inl f | Inr returns_metrics \<Rightarrow>
        case calculate_risk_adjusted stats self of Inl f \<Rightarrow> Inl f | Inr risk_metrics \<Rightarrow>
        case calculate_drawdown (equity_curve self) of Inl f \<Rightarrow> Inl f | Inr drawdown_metrics \<Rightarrow>
        case calculate_trade_stats (pc_trades self) of Inl f \<Rightarrow> Inl f | Inr trade_metrics \<Rightarrow>
        case calculate_monthly_returns stats self of Inl f \<Rightarrow> Inl f | Inr monthly_metrics \<Rightarrow>
          Inr \<lparr>returns = returns_metrics, risk_adjusted = risk_metrics,
               drawdown = drawdown_metrics, trades = trade_metrics,
               monthly = monthly_metrics\<rparr>)"

text \<open>Calculators and statistics used as concrete inputs below.\<close>

definition constant_statistics :: statistics where
  "constant_statistics =
     \<lparr>calculate_returns = (\<lambda>_. Inr (returns empty_metrics)),
      calculate_risk_adjusted = (\<lambda>_. Inr (risk_adjusted empty_metrics)),
      calculate_monthly_returns = (\<lambda>_. Inr (monthly empty_metrics))\<rparr>"

definition open_trade :: trade where
  "open_trade = \<lparr>tr_status = Some ''OPEN'', tr_pnl_realized = Some None,
                  tr_entry_time = Some 0, tr_exit_time = None\<rparr>"

definition one_point_calculator :: performance_calculator where
  "one_point_calculator =
     \<lparr>equity_curve = [(0, 100000)], pc_trades = [open_trade], initial_capital = 100000,
      start_date = 0, end_date = 0, risk_free_rate = 3 / 100\<rparr>"

definition scenario_calculator :: performance_calculator where
  "scenario_calculator =
     \<lparr>equity_curve = scenario_curve 0, pc_trades = [open_trade], initial_capital = 100000,
      start_date = 0, end_date = 5 * 86400, risk_free_rate = 3 / 100\<rparr>"


section \<open>The risk manager (src/risk/risk_manager.py)\<close>

text \<open>
  A signal with the two metadata entries the risk manager reads:
  \<open>metadata.get('quantity', 0)\<close>, where \<open>None\<close> is the missing key, and
  \<open>metadata.get('stop_loss')\<close>, where \<open>None\<close> is a missing key or the value None. A
  quantity that is present is a number, as the strategies produce it.
\<close>

record signal_event =
  sig_symbol :: string
  sig_asset_type :: string
  sig_strategy_id :: string
  signal_type :: string
  confidence :: real
  sig_price :: real
  meta_quantity :: "real option"
  meta_stop_loss :: "real option"

record risk_alert_event =
  alert_type :: string
  severity :: string
  description :: "rejection_reason option"
  ra_symbol :: string
  ra_asset_type :: string
  ra_strategy_id :: string
  ra_signal_type :: string
  ra_signal_price :: real
  ra_signal_confidence :: real
  ra_portfolio_value :: real
  ra_circuit_breaker_active :: bool

datatype risk_output = Order order_event | RiskAlert risk_alert_event

text \<open>The four sections of the configuration dict, each entry with its default.\<close>

record risk_config =
  cfg_max_position_pct :: "real option"
  cfg_max_symbol_exposure :: "real option"
  cfg_max_portfolio_exposure :: "real option"
  cfg_max_correlation :: "real option"
  cfg_daily_loss_limit :: "real option"
  cfg_max_drawdown :: "real option"

definition default_risk_config :: risk_config where
  "default_risk_config =
     \<lparr>cfg_max_position_pct = None, cfg_max_symbol_exposure = None,
      cfg_max_portfolio_exposure = None, cfg_max_correlation = None,
      cfg_daily_loss_limit = None, cfg_max_drawdown = None\<rparr>"

record risk_manager =
  max_position_pct :: real
  min_stop_loss_pct :: real
  max_stop_loss_pct :: real
  max_symbol_exposure :: real
  max_portfolio_exposure :: real
  max_correlation :: real
  daily_loss_limit :: real
  rm_max_drawdown :: real
  rm_initial_capital :: real
  portfolio_value :: real
  daily_start_equity :: real
  peak_equity :: real
  circuit_breaker_active :: bool
  open_positions_cache :: "position_row list"
  last_cache_refresh :: datetime

definition config_get :: "real option \<Rightarrow> real \<Rightarrow> real" where
  "config_get entry dflt = (case entry of None \<Rightarrow> dflt | Some v \<Rightarrow> v)"

definition RiskManager_init :: "risk_config \<Rightarrow> real \<Rightarrow> datetime \<Rightarrow> risk_manager" where
  "RiskManager_init config capital now =
     \<lparr>max_position_pct = config_get (cfg_max_position_pct config) 0.10,
      min_stop_loss_pct = 0.005,
      max_stop_loss_pct = 0.10,
      max_symbol_exposure = config_get (cfg_max_symbol_exposure config) 0.15,
      max_portfolio_exposure = config_get (cfg_max_portfolio_exposure config) 0.80,
      max_correlation = config_get (cfg_max_correlation config) 0.70,
      daily_loss_limit = config_get (cfg_daily_loss_limit config) 0.05,
      rm_max_drawdown = config_get (cfg_max_drawdown config) 0.20,
      rm_initial_capital = capital,
      portfolio_value = capital,
      daily_start_equity = capital,
      peak_equity = capital,
      circuit_breaker_active = False,
      open_positions_cache = [],
      last_cache_refresh = now\<rparr>"

text \<open>
  \<open>execute_query\<close> with the three statements the risk manager sends. A failing
  statement raises to the caller, which catches it.
\<close>

definition open_rows_of_symbol :: "database \<Rightarrow> string \<Rightarrow> py_error + position_row list" where
  "open_rows_of_symbol db symb =
     (if db_ok db
      then Inr (filter (\<lambda>r. row_symbol r = symb \<and> row_status r = ''OPEN'') (db_positions db))
      else Inl DatabaseError)"

definition open_rows :: "database \<Rightarrow> py_error + position_row list" where
  "open_rows db =
     (if db_ok db then Inr (filter (\<lambda>r. row_status r = ''OPEN'') (db_positions db))
      else Inl DatabaseError)"

definition check_circuit_breakers ::
  "risk_manager \<Rightarrow> (bool \<times> rejection_reason option) \<times> risk_manager" where
  "check_circuit_breakers self =
     (if circuit_breaker_active self then ((False, Some BreakerActive), self)
      else
        let current_value = portfolio_value self in
        if daily_start_equity self > 0
           \<and> (current_value - daily_start_equity self) / daily_start_equity self
               < - daily_loss_limit self
        then ((False, Some (DailyLossBreached
                 ((current_value - daily_start_equity self) / daily_start_equity self)
                 (- daily_loss_limit self))),
              self\<lparr>circuit_breaker_active := True\<rparr>)
        else if peak_equity self > 0
           \<and> (peak_equity self - current_value) / peak_equity self > rm_max_drawdown self
        then ((False, Some (MaxDrawdownBreached
                 ((peak_equity self - current_value) / peak_equity self)
                 (rm_max_drawdown self))),
              self\<lparr>circuit_breaker_active := True\<rparr>)
        else if current_value > peak_equity self
        then ((True, None), self\<lparr>peak_equity := current_value\<rparr>)
        else ((True, None), self))"

definition check_position_risk ::
  "risk_manager \<Rightarrow> signal_event \<Rightarrow> py_error + (bool \<times> rejection_reason option)" where
  "check_position_risk self signal =
     (let position_pct = (case meta_quantity signal of None \<Rightarrow> 0 | Some q \<Rightarrow> q) in
      if position_pct > max_position_pct self
      then Inr (False, Some (PositionSizeExceeds position_pct (max_position_pct self)))
      else if signal_type signal \<in> {''BUY'', ''SELL''} then
        (case meta_stop_loss signal of
           None \<Rightarrow> Inr (False, Some StopLossMissing)
         | Some sl \<Rightarrow>
             if sig_price signal = 0 then Inl ZeroDivisionError
             else
               let stop_loss_pct = \<bar>sig_price signal - sl\<bar> / sig_price signal in
               if stop_loss_pct < min_stop_loss_pct self
               then Inr (False, Some (StopLossTooTight stop_loss_pct (min_stop_loss_pct self)))
               else if stop_loss_pct > max_stop_loss_pct self
               then Inr (False, Some (StopLossTooWide stop_loss_pct (max_stop_loss_pct self)))
               else Inr (True, None))
      else Inr (True, None))"

definition check_symbol_risk ::
  "risk_manager \<Rightarrow> database \<Rightarrow> string \<Rightarrow> real \<Rightarrow> bool \<times> rejection_reason option" where
  "check_symbol_risk self db symb new_exposure =
     (case open_rows_of_symbol db symb of
        Inl e \<Rightarrow> (False, Some (SymbolCheckFailed e))
      | Inr result \<Rightarrow>
          let existing_exposure = sum_list (map (\<lambda>r. row_quantity r * row_entry_price r) result);
              total_exposure = existing_exposure + new_exposure;
              exposure_pct = (if portfolio_value self > 0
                              then total_exposure / portfolio_value self else 0)
          in if exposure_pct > max_symbol_exposure self
             then (False, Some (SymbolExposureExceeds exposure_pct (max_symbol_exposure self)
                                  existing_exposure new_exposure))
             else (True, None))"

text \<open>
  \<open>_get_open_positions\<close> answers from the cache while it is younger than 60 seconds and
  not empty; otherwise it asks the database and refreshes the cache, and on a failing
  query it returns the empty list. \<open>now\<close> is the clock reading of the call.
\<close>

definition get_open_positions ::
  "risk_manager \<Rightarrow> database \<Rightarrow> datetime \<Rightarrow> position_row list \<times> risk_manager" where
  "get_open_positions self db now =
     (let age_seconds = now - last_cache_refresh self in
      if age_seconds < 60 \<and> open_positions_cache self \<noteq> [] then (open_positions_cache self, self)
      else
        case open_rows db of
          Inl e \<Rightarrow> ([], self)
        | Inr rows \<Rightarrow> (rows, self\<lparr>open_positions_cache := rows, last_cache_refresh := now\<rparr>))"

definition calculate_position_value :: "database \<Rightarrow> string \<Rightarrow> real \<Rightarrow> real" where
  "calculate_position_value db symb qty =
     (case open_rows_of_symbol db symb of
        Inl e \<Rightarrow> 0
      | Inr [] \<Rightarrow> 0
      | Inr (r # _) \<Rightarrow> qty * row_entry_price r)"

text \<open>
  \<open>_check_portfolio_risk\<close> wraps its body in \<open>try\<close>, but both helpers it calls catch
  the database's exceptions themselves, so its \<open>except\<close> branch has no way in here.
\<close>

definition check_portfolio_risk ::
  "risk_manager \<Rightarrow> database \<Rightarrow> datetime \<Rightarrow> real \<Rightarrow>
   (bool \<times> rejection_reason option) \<times> risk_manager" where
  "check_portfolio_risk self db now new_position_value =
     (let (rows, self1) = get_open_positions self db now;
          total_invested =
            sum_list (map (\<lambda>p. calculate_position_value db (row_symbol p) (row_quantity p)) rows)
            + new_position_value;
          exposure_pct = (if portfolio_value self1 > 0
                          then total_invested / portfolio_value self1 else 0)
      in if exposure_pct > max_portfolio_exposure self1
         then ((False, Some (PortfolioExposureExceeds exposure_pct (max_portfolio_exposure self1)
                               total_invested (portfolio_value self1))), self1)
         else ((True, None), self1))"

definition get_portfolio_value ::
  "risk_manager \<Rightarrow> database \<Rightarrow> datetime \<Rightarrow> real \<times> risk_manager" where
  "get_portfolio_value self db now =
     (let (rows, self1) = get_open_positions self db now;
          invested_value =
            sum_list (map (\<lambda>p. calculate_position_value db (row_symbol p) (row_quantity p)) rows);
          cash' = max 0 (rm_initial_capital self1 - invested_value)
      in (cash' + invested_value, self1))"

text \<open>
  The order id is \<open>'ORD-'\<close> and eight hex digits of a fresh UUID; the digits are an
  input. The quantity is a float division by the signal's price.
\<close>

definition create_order_event ::
  "risk_manager \<Rightarrow> signal_event \<Rightarrow> string \<Rightarrow> py_error + order_event" where
  "create_order_event self signal uuid =
     (let quantity_pct = (case meta_quantity signal of None \<Rightarrow> 0 | Some q \<Rightarrow> q) in
      if sig_price signal = 0 then Inl ZeroDivisionError
      else
        let qty = (quantity_pct * portfolio_value self) / sig_price signal;
            sd = (if signal_type signal \<in> {''BUY'', ''SELL''} then signal_type signal
                  else ''SELL'')
        in Inr \<lparr>order_id = ''ORD-'' @ uuid, ord_symbol = sig_symbol signal,
                ord_asset_type = sig_asset_type signal, ord_side = sd,
                ord_order_type = ''MARKET'', ord_quantity = qty, ord_price = None,
                ord_stop_price = None, ord_strategy_id = sig_strategy_id signal,
                ord_position_id = None\<rparr>)"

definition create_risk_alert ::
  "risk_manager \<Rightarrow> signal_event \<Rightarrow> rejection_reason option \<Rightarrow> string \<Rightarrow> risk_alert_event" where
  "create_risk_alert self signal reason sev =
     \<lparr>alert_type = ''SIGNAL_REJECTED'', severity = sev, description = reason,
      ra_symbol = sig_symbol signal, ra_asset_type = sig_asset_type signal,
      ra_strategy_id = sig_strategy_id signal, ra_signal_type = signal_type signal,
      ra_signal_price = sig_price signal, ra_signal_confidence = confidence signal,
      ra_portfolio_value = portfolio_value self,
      ra_circuit_breaker_active = circuit_breaker_active self\<rparr>"

text \<open>\<open>_log_risk_event\<close> swallows whatever the database raises.\<close>

definition log_risk_event :: "database \<Rightarrow> risk_alert_event \<Rightarrow> database" where
  "log_risk_event db alert =
     fst (db_log_risk_event db
            \<lparr>re_event_type = alert_type alert, re_severity = severity alert,
             re_description = description alert, re_symbol = ra_symbol alert,
             re_asset_type = ra_asset_type alert, re_strategy_id = ra_strategy_id alert\<rparr>)"

record rm_outcome =
  rm_after :: risk_manager
  rm_db_after :: database
  rm_published :: "risk_output list"

text \<open>A rejection: the alert is published and then logged.\<close>

definition reject ::
  "risk_manager \<Rightarrow> database \<Rightarrow> signal_event \<Rightarrow> rejection_reason option \<Rightarrow> string \<Rightarrow> rm_outcome" where
  "reject self db signal reason sev =
     (let alert = create_risk_alert self signal reason sev
      in \<lparr>rm_after = self, rm_db_after = log_risk_event db alert,
          rm_published = [RiskAlert alert]\<rparr>)"

text \<open>The \<open>except Exception\<close> branch: the alert is published; nothing is logged.\<close>

definition on_error ::
  "risk_manager \<Rightarrow> database \<Rightarrow> signal_event \<Rightarrow> py_error \<Rightarrow> rm_outcome" where
  "on_error self db signal e =
     (let alert = create_risk_alert self signal (Some (ProcessingError e)) ''HIGH''
      in \<lparr>rm_after = self, rm_db_after = db, rm_published = [RiskAlert alert]\<rparr>)"

definition approve ::
  "risk_manager \<Rightarrow> database \<Rightarrow> signal_event \<Rightarrow> string \<Rightarrow> rm_outcome" where
  "approve self db signal uuid =
     (case create_order_event self signal uuid of
        Inl e \<Rightarrow> on_error self db signal e
      | Inr order \<Rightarrow> \<lparr>rm_after = self, rm_db_after = db, rm_published = [Order order]\<rparr>)"

definition on_signal ::
  "risk_manager \<Rightarrow> database \<Rightarrow> datetime \<Rightarrow> string \<Rightarrow> signal_event \<Rightarrow> rm_outcome" where
  "on_signal self db now uuid signal =
     (if signal_type signal = ''CLOSE'' then approve self db signal uuid
      else
        let ((trading_allowed, reason), self1) = check_circuit_breakers self in
        if \<not> trading_allowed then reject self1 db signal reason ''CRITICAL''
        else
          let position_pct = (case meta_quantity signal of None \<Rightarrow> 0 | Some q \<Rightarrow> q);
              position_value = position_pct * portfolio_value self1
          in case check_position_risk self1 signal of
               Inl e \<Rightarrow> on_error self1 db signal e
             | Inr (approved, reason) \<Rightarrow>
                 if \<not> approved then reject self1 db signal reason ''HIGH''
                 else
                   let (approved, reason) =
                         check_symbol_risk self1 db (sig_symbol signal) position_value
                   in if \<not> approved then reject self1 db signal reason ''MEDIUM''
                      else
                        let ((approved, reason), self2) =
                              check_portfolio_risk self1 db now position_value
                        in if \<not> approved then reject self2 db signal reason ''MEDIUM''
                           else approve self2 db signal uuid)"

definition reset_circuit_breaker :: "risk_manager \<Rightarrow> risk_manager" where
  "reset_circuit_breaker self =
     (if circuit_breaker_active self then self\<lparr>circuit_breaker_active := False\<rparr> else self)"

definition reset_daily_tracking :: "risk_manager \<Rightarrow> database \<Rightarrow> datetime \<Rightarrow> risk_manager" where
  "reset_daily_tracking self db now =
     (let (v, self1) = get_portfolio_value self db now;
          self2 = self1\<lparr>portfolio_value := v\<rparr>
      in self2\<lparr>daily_start_equity := portfolio_value self2\<rparr>)"

text \<open>
  What happens to a risk manager between two signals: the orchestrator and the tests
  assign \<open>portfolio_value\<close>, \<open>peak_equity\<close> and \<open>daily_start_equity\<close>, other components
  change the database, and an operator may call the two reset methods.
\<close>

datatype rm_action =
    OnSignal datetime string signal_event
  | SetPortfolioValue real
  | SetPeakEquity real
  | SetDailyStartEquity real
  | SetDatabase database
  | ResetDailyTracking datetime
  | ResetCircuitBreaker

fun rm_step ::
  "risk_manager \<times> database \<Rightarrow> rm_action \<Rightarrow> (risk_manager \<times> database) \<times> risk_output list" where
  "rm_step (self, db) (OnSignal now uuid signal) =
     (let out = on_signal self db now uuid signal
      in ((rm_after out, rm_db_after out), rm_published out))"
| "rm_step (self, db) (SetPortfolioValue v) = ((self\<lparr>portfolio_value := v\<rparr>, db), [])"
| "rm_step (self, db) (SetPeakEquity v) = ((self\<lparr>peak_equity := v\<rparr>, db), [])"
| "rm_step (self, db) (SetDailyStartEquity v) = ((self\<lparr>daily_start_equity := v\<rparr>, db), [])"
| "rm_step (self, db) (SetDatabase db') = ((self, db'), [])"
| "rm_step (self, db) (ResetDailyTracking now) = ((reset_daily_tracking self db now, db), [])"
| "rm_step (self, db) ResetCircuitBreaker = ((reset_circuit_breaker self, db), [])"

fun rm_run ::
  "risk_manager \<times> database \<Rightarrow> rm_action list \<Rightarrow>
   (risk_manager \<times> database) \<times> risk_output list list" where
  "rm_run s [] = (s, [])"
| "rm_run s (a # as) =
     (case rm_step s a of (s1, out) \<Rightarrow>
        (case rm_run s1 as of (s2, outs) \<Rightarrow> (s2, out # outs)))"

text \<open>The existing notional of a symbol, as the claims speak of it.\<close>

definition symbol_notional :: "database \<Rightarrow> string \<Rightarrow> real" where
  "symbol_notional db symb =
     (\<Sum>r \<leftarrow> filter (\<lambda>r. row_symbol r = symb \<and> row_status r = ''OPEN'') (db_positions db).
        row_quantity r * row_entry_price r)"

text \<open>Signals, managers and databases used as concrete inputs below (tests/test_risk_manager.py).\<close>

definition test_signal :: signal_event where
  "test_signal =
     \<lparr>sig_symbol = ''BTC/USDT'', sig_asset_type = ''CRYPTO'', sig_strategy_id = ''test_strategy'',
      signal_type = ''BUY'', confidence = 85 / 100, sig_price = 50000,
      meta_quantity = Some (8 / 100), meta_stop_loss = Some 49000\<rparr>"

definition exit_signal :: signal_event where
  "exit_signal = test_signal\<lparr>signal_type := ''EXIT''\<rparr>"

definition close_signal :: signal_event where
  "close_signal = test_signal\<lparr>signal_type := ''CLOSE'', meta_quantity := Some 0,
                              meta_stop_loss := None\<rparr>"

definition zero_price_close :: signal_event where
  "zero_price_close = close_signal\<lparr>sig_price := 0\<rparr>"

definition zero_price_signal :: signal_event where
  "zero_price_signal = test_signal\<lparr>sig_price := 0\<rparr>"

definition oversized_signal :: signal_event where
  "oversized_signal = test_signal\<lparr>meta_quantity := Some (15 / 100)\<rparr>"

definition test_manager :: risk_manager where
  "test_manager = RiskManager_init default_risk_config 100000 0"

definition tripped_manager :: risk_manager where
  "tripped_manager = test_manager\<lparr>circuit_breaker_active := True\<rparr>"

definition tripped_state :: "risk_manager \<times> database" where
  "tripped_state =
     fst (rm_run (test_manager, empty_database)
            [SetPortfolioValue 94000, OnSignal 0 ''0000000A'' test_signal])"

definition recovery_actions :: "rm_action list" where
  "recovery_actions =
     [SetPortfolioValue 120000, OnSignal 1 ''0000000B'' test_signal, ResetDailyTracking 2,
      OnSignal 3 ''0000000C'' test_signal]"

definition open_row :: "int \<Rightarrow> string \<Rightarrow> real \<Rightarrow> real \<Rightarrow> position_row" where
  "open_row i symb qty eprice =
     \<lparr>row_id = i, row_symbol = symb, row_asset_type = ''CRYPTO'', row_side = ''LONG'',
      row_quantity = qty, row_entry_price = eprice, row_entry_time = 0,
      row_strategy_id = ''test_strategy'', row_metadata = None, row_status = ''OPEN'',
      row_exit_price = None, row_exit_time = None, row_pnl_realized = None\<rparr>"

definition one_position_db :: database where
  "one_position_db =
     empty_database\<lparr>db_positions := [open_row 1 ''BTC/USDT'' (16 / 100) 50000]\<rparr>"

definition two_positions_db :: database where
  "two_positions_db =
     empty_database\<lparr>db_positions := [open_row 1 ''BTC/USDT'' (10 / 100) 50000,
                                      open_row 2 ''BTC/USDT'' (6 / 100) 50000]\<rparr>"


chapter \<open>Properties\<close>

section \<open>Position\<close>

lemma close_open_state:
  "status p \<noteq> ''CLOSED'' \<Longrightarrow>
   status (snd (close p x t c)) = ''CLOSED'' \<and> exit_commission (snd (close p x t c)) = c
   \<and> pnl_realized (snd (close p x t c)) = fst (close p x t c)"
  by (simp add: close_def Let_def)

lemma close_closed_noop: "status p = ''CLOSED'' \<Longrightarrow> close p x t c = (pnl_realized p, p)"
  by (simp add: close_def)

text \<open>A second \<open>close\<close> changes nothing and returns the P&L of the first.\<close>

lemma close_idempotent:
  "close (snd (close p x t c)) x' t' c' = (fst (close p x t c), snd (close p x t c))"
  by (simp add: close_def Let_def)

text \<open>The cash movement of each leg, for any fill.\<close>

lemma open_position_cash:
  "cash (pm_after (open_position self db fill)) - cash self =
     (if fill_side fill = ''BUY''
      then - (fill_quantity fill * fill_price fill + fill_commission fill)
      else fill_quantity fill * fill_price fill - fill_commission fill)"
  by (simp add: open_position_def outcome_of_def Let_def split: prod.splits sum.splits)

lemma close_position_cash:
  "cash (pm_after (close_position self db pos fill)) - cash self =
     (if fill_side fill = ''SELL''
      then fill_quantity fill * fill_price fill - fill_commission fill
      else - (fill_quantity fill * fill_price fill + fill_commission fill))"
  by (simp add: close_position_def outcome_of_def Let_def split: prod.splits sum.splits)

lemma on_fill_scenario:
  "let o1 = on_fill (PortfolioManager_init c0) empty_database scenario_buy_fill;
       o2 = on_fill (pm_after o1) (db_after o1) scenario_sell_fill
   in cash (pm_after o1) = c0 - (1 * 50000 + 300)
    \<and> cash (pm_after o2) = cash (pm_after o1) + (1 * 52000 - 312)
    \<and> map row_pnl_realized (db_positions (db_after o2)) = [Some 1388]
    \<and> map row_status (db_positions (db_after o2)) = [''CLOSED'']"
  by (simp add: on_fill_def get_open_position_def PortfolioManager_init_def open_position_def
      empty_database_def create_position_def scenario_buy_fill_def scenario_sell_fill_def Let_def
      publish_position_update_def query_by_id_def query_open_by_id_def dataclass_init_def
      PositionUpdateEvent_fields_def publish_position_update_kwargs_def outcome_of_def
      close_position_def calculate_realized_pnl_def update_position_def)

text \<open>
  Claim C1. The scenario: the backtest portfolio manager, started with any cash \<open>c0\<close> on
  an empty database, takes the BUY fill (1.0 at 50000, commission 300) and then the SELL
  fill (1.0 at 52000, commission 312). Its cash changes by \<open>-(1 * 50000 + 300)\<close> on the
  first and by \<open>+(1 * 52000 - 312)\<close> on the second, and the position it records is closed
  with realized P&L 1388; a \<open>Position\<close> object opened and closed with the same numbers
  returns 1388 as well. In general: \<open>close\<close> on an open position returns
  \<open>(exit - entry) * quantity - (entry commission + exit commission)\<close> for a LONG and
  \<open>-(exit - entry) * quantity - (entry commission + exit commission)\<close> for a SHORT
  position, and leaves the position closed with that value as its realized P&L.
\<close>

theorem pnl_conservation:
  "(let o1 = on_fill (PortfolioManager_init c0) empty_database scenario_buy_fill;
        o2 = on_fill (pm_after o1) (db_after o1) scenario_sell_fill
    in cash (pm_after o1) - c0 = - (1 * 50000 + 300)
     \<and> cash (pm_after o2) - cash (pm_after o1) = 1 * 52000 - 312
     \<and> map row_pnl_realized (db_positions (db_after o2)) = [Some 1388]
     \<and> map row_status (db_positions (db_after o2)) = [''CLOSED''])
   \<and> fst (close (Position_init 1 ''BTC/USDT'' ''CRYPTO'' ''LONG'' 50000 1 0 ''test'' None None 300)
              52000 3600 312) = 1388
   \<and> (status p = ''OPEN'' \<longrightarrow>
        (side p = ''LONG'' \<longrightarrow>
           fst (close p x t c) = (x - entry_price p) * quantity p - (entry_commission p + c))
      \<and> (side p = ''SHORT'' \<longrightarrow>
           fst (close p x t c) = - 1 * (x - entry_price p) * quantity p - (entry_commission p + c))
      \<and> status (snd (close p x t c)) = ''CLOSED''
      \<and> pnl_realized (snd (close p x t c)) = fst (close p x t c))"
proof -
  have general: "status p = ''OPEN'' \<longrightarrow>
        (side p = ''LONG'' \<longrightarrow>
           fst (close p x t c) = (x - entry_price p) * quantity p - (entry_commission p + c))
      \<and> (side p = ''SHORT'' \<longrightarrow>
           fst (close p x t c) = - 1 * (x - entry_price p) * quantity p - (entry_commission p + c))
      \<and> status (snd (close p x t c)) = ''CLOSED''
      \<and> pnl_realized (snd (close p x t c)) = fst (close p x t c)"
    by (simp add: close_def Let_def algebra_simps)
  have obj: "fst (close (Position_init 1 ''BTC/USDT'' ''CRYPTO'' ''LONG'' 50000 1 0 ''test'' None None 300)
              52000 3600 312) = 1388"
    by (simp add: close_def Position_init_def Let_def)
  from on_fill_scenario [of c0] general obj show ?thesis
    by (simp add: Let_def)
qed

theorem pnl_conservation_witness:
  "status (Position_init 7 ''ETH/USDT'' ''CRYPTO'' ''SHORT'' 2000 3 0 ''test'' None None 10) = ''OPEN''
   \<and> fst (close (Position_init 7 ''ETH/USDT'' ''CRYPTO'' ''SHORT'' 2000 3 0 ''test'' None None 10)
             1900 60 9) = 281"
  using pnl_conservation [of 0 "Position_init 7 ''ETH/USDT'' ''CRYPTO'' ''SHORT'' 2000 3 0 ''test'' None None 10"
                             1900 60 9]
  by (simp add: Position_init_def Let_def)

text \<open>
  Claim C10. A position whose status is \<open>'CLOSED'\<close> is inert: at every price
  \<open>update_market_price\<close> and \<open>get_value\<close> return 0, \<open>should_stop_loss\<close> and
  \<open>should_take_profit\<close> return False, and each call hands back the position with every
  field as it was.
\<close>

theorem closed_position_inert:
  assumes "status p = ''CLOSED''"
  shows "update_market_price p price = (0, p)
       \<and> get_value p price = (0, p)
       \<and> should_stop_loss p price = (False, p)
       \<and> should_take_profit p price = (False, p)"
  using assms
  by (simp add: update_market_price_def get_value_def should_stop_loss_def
      should_take_profit_def split: option.split)

theorem closed_position_inert_witness:
  "let p = snd (close (Position_init 1 ''BTC/USDT'' ''CRYPTO'' ''LONG'' 50000 1 0 ''s''
                         (Some 49000) (Some 52000) 300) 52000 3600 312)
   in status p = ''CLOSED''
      \<and> update_market_price p 40000 = (0, p)
      \<and> get_value p 40000 = (0, p)
      \<and> should_stop_loss p 40000 = (False, p)
      \<and> should_take_profit p 60000 = (False, p)"
proof -
  define p where "p = snd (close (Position_init 1 ''BTC/USDT'' ''CRYPTO'' ''LONG'' 50000 1 0 ''s''
                         (Some 49000) (Some 52000) 300) 52000 3600 312)"
  have st: "status p = ''CLOSED''"
    by (simp add: p_def close_def Position_init_def Let_def)
  from closed_position_inert [OF st, of 40000] closed_position_inert [OF st, of 60000] st
  show ?thesis unfolding p_def [symmetric] by (simp add: Let_def)
qed

section \<open>Execution engine\<close>

lemma slippage_nonneg:
  assumes q: "0 < ord_quantity order" and bp: "0 \<le> base_price"
    and c: "0 \<le> bar_close b" and hl: "bar_low b \<le> bar_high b"
    and p1: "0 \<le> base_slippage_pct params" and p2: "0 \<le> volume_impact_factor params"
    and r: "calculate_slippage params order base_price b = Inr slip"
  shows "0 \<le> slip \<and> slip = spec_slippage params (ord_quantity order) base_price b"
proof -
  define ov where "ov = ord_quantity order * base_price"
  have ov: "0 \<le> ov" using q bp by (simp add: ov_def)
  have vol: "0 \<le> base_price * (ov / max d ov * volume_impact_factor params)" for d
  proof -
    have "0 \<le> ov / max d ov" using ov by (simp add: max_def divide_nonneg_nonneg)
    then show ?thesis using bp p2 by (intro mult_nonneg_nonneg)
  qed
  have volat: "0 \<le> base_price * ((bar_high b - bar_low b) / bar_close b * 0.5)"
    using bp c hl by (intro mult_nonneg_nonneg divide_nonneg_nonneg) simp_all
  have b0: "0 \<le> base_price * base_slippage_pct params" using bp p1 by (intro mult_nonneg_nonneg)
  have cap: "0 \<le> base_price * 0.02" using bp by simp
  show ?thesis
    using r vol volat b0 cap
    by (auto simp: calculate_slippage_def spec_slippage_def Let_def ov_def
        split: if_splits option.splits)
qed


lemma validate_order_ok:
  "fst (validate_order current_bars order) \<Longrightarrow>
   ord_side order \<in> {''BUY'', ''SELL''} \<and> 0 < ord_quantity order
   \<and> current_bars (ord_symbol order) \<noteq> None"
  by (auto simp: validate_order_def split: if_splits)

lemma slippage_raises:
  assumes r: "calculate_slippage params order base_price b = Inl e"
    and q: "0 < ord_quantity order" and bp: "0 \<le> base_price" and c: "0 \<le> bar_close b"
  shows "e = ZeroDivisionError \<and> (\<exists>v. bar_volume b = Some v \<and> 0 < v) \<and> bar_close b = 0
         \<and> base_price = 0"
proof -
  from r obtain v where v: "bar_volume b = Some v" "0 < v"
    and m: "max (v * bar_close b) (ord_quantity order * base_price) = 0" and e: "e = ZeroDivisionError"
    by (auto simp: calculate_slippage_def Let_def split: if_splits option.splits)
  have "0 \<le> v * bar_close b" using v c by simp
  moreover have "0 \<le> ord_quantity order * base_price" using q bp by simp
  ultimately have "v * bar_close b = 0" "ord_quantity order * base_price = 0"
    using m by (auto simp: max_def split: if_splits)
  with v q e show ?thesis by auto
qed

text \<open>
  What the code does where the bar is well formed: for an order that passes
  \<open>_validate_order\<close>, on its current bar with nonnegative prices, a positive close and a
  low that is at most the high, under slippage rates that are not negative, the slippage
  is \<open>min (base + volume impact + volatility impact) (2% of the base price)\<close> and is not
  negative; a BUY fills at the high plus the slippage and a SELL at the low minus it.
\<close>

lemma fill_price_on_well_formed_bar:
  assumes valid: "fst (validate_order current_bars order)"
    and cur: "current_bars (ord_symbol order) = Some b"
    and nonneg: "0 \<le> bar_open b \<and> 0 \<le> bar_high b \<and> 0 \<le> bar_low b \<and> 0 < bar_close b"
    and hl: "bar_low b \<le> bar_high b"
    and p1: "0 \<le> base_slippage_pct params" and p2: "0 \<le> volume_impact_factor params"
  shows "\<exists>slip. 0 \<le> slip
            \<and> slip = spec_slippage params (ord_quantity order)
                       (if ord_side order = ''BUY'' then bar_high b else bar_low b) b
            \<and> (ord_side order = ''BUY'' \<longrightarrow>
                 calculate_fill_price params order b = Inr (bar_high b + slip)
                 \<and> bar_high b \<le> bar_high b + slip)
            \<and> (ord_side order = ''SELL'' \<longrightarrow>
                 calculate_fill_price params order b = Inr (bar_low b - slip)
                 \<and> bar_low b - slip \<le> bar_low b)"
proof -
  define bp where "bp = (if ord_side order = ''BUY'' then bar_high b else bar_low b)"
  from validate_order_ok [OF valid]
  have sd: "ord_side order = ''BUY'' \<or> ord_side order = ''SELL''" and q: "0 < ord_quantity order"
    by auto
  have bp0: "0 \<le> bp" using nonneg by (simp add: bp_def)
  have c0: "0 \<le> bar_close b" using nonneg by simp
  show ?thesis
  proof (cases "calculate_slippage params order bp b")
    case (Inl e)
    from slippage_raises [OF Inl q bp0 c0] have "bar_close b = 0" by simp
    with nonneg show ?thesis by simp
  next
    case (Inr slip)
    from slippage_nonneg [OF q bp0 c0 hl p1 p2 Inr]
    have s: "0 \<le> slip" "slip = spec_slippage params (ord_quantity order) bp b" by auto
    have "calculate_fill_price params order b =
            (if ord_side order = ''BUY'' then Inr (bp + slip) else Inr (bp - slip))"
      using Inr by (simp add: calculate_fill_price_def bp_def [symmetric])
    with s sd show ?thesis unfolding bp_def by (intro exI [of _ slip]) auto
  qed
qed

lemma fill_price_on_test_bar:
  "\<exists>fp. calculate_fill_price default_slippage_params test_buy_order test_bar = Inr fp
        \<and> bar_high test_bar \<le> fp"
  using fill_price_on_well_formed_bar
          [of "[''BTC/USDT'' \<mapsto> test_bar]" test_buy_order test_bar default_slippage_params]
  by (simp add: validate_order_def test_buy_order_def test_bar_def default_slippage_params_def
      base_slippage_pct_def volume_impact_factor_def)

text \<open>
  Claim C2 at a bar whose prices are nonnegative and whose high is below its low. The
  order is valid and the bar is its current bar. The volatility term
  \<open>base_price * ((high - low) / close * 0.5)\<close> is negative there, the slippage that
  \<open>_calculate_slippage\<close> returns is \<open>-49.9\<close>, against its docstring's "always positive",
  and the BUY fills at \<open>50.1\<close>, below the bar's high of 100. A negative base slippage
  rate does the same on a well-formed bar: the slippage is \<open>-1\<close> and the BUY fills at 99.
\<close>

theorem negative_slippage_fill:
  "fst (validate_order [''BTC/USDT'' \<mapsto> inverted_bar] test_buy_order)
   \<and> calculate_slippage default_slippage_params test_buy_order (bar_high inverted_bar) inverted_bar
       = Inr (- 499 / 10)
   \<and> calculate_fill_price default_slippage_params test_buy_order inverted_bar = Inr (501 / 10)
   \<and> \<not> bar_high inverted_bar \<le> 501 / 10
   \<and> calculate_slippage rebate_params test_buy_order (bar_high flat_bar) flat_bar = Inr (- 1)
   \<and> calculate_fill_price rebate_params test_buy_order flat_bar = Inr 99
   \<and> \<not> bar_high flat_bar \<le> 99"
  by (simp add: validate_order_def calculate_fill_price_def calculate_slippage_def
      default_slippage_params_def test_buy_order_def inverted_bar_def flat_bar_def
      rebate_params_def base_slippage_pct_def volume_impact_factor_def Let_def)

section \<open>Event bus\<close>

lemma foldl_publish_queue: "event_queue (foldl publish self es) = event_queue self @ es"
  by (induction es arbitrary: self) (simp_all add: publish_def)

lemma foldl_publish_history:
  "event_history (foldl publish self es) = map_option (\<lambda>h. h @ es) (event_history self)"
  by (induction es arbitrary: self) (auto simp: publish_def option.map_ident split: option.splits)

lemma foldl_publish_subscribers: "subscribers (foldl publish self es) = subscribers self"
  by (induction es arbitrary: self) (simp_all add: publish_def)

lemma call_handlers_effect:
  "call_handlers hs e self w = (self', w', calls) \<Longrightarrow>
   event_queue self' = event_queue self @ published_by calls
   \<and> event_history self' = map_option (\<lambda>h. h @ published_by calls) (event_history self)
   \<and> subscribers self' = subscribers self
   \<and> length calls = length hs"
proof (induction hs arbitrary: self w self' w' calls)
  case Nil
  then show ?case by (auto simp: published_by_def option.map_ident split: option.splits)
next
  case (Cons h hs)
  obtain pubs w1 raised where h: "h e w = (pubs, w1, raised)" by (cases "h e w") auto
  obtain self2 w2 calls2 where r: "call_handlers hs e (foldl publish self pubs) w1 = (self2, w2, calls2)"
    by (cases "call_handlers hs e (foldl publish self pubs) w1") auto
  from Cons.prems h r have eq: "self' = self2" "w' = w2" "calls = (raised, pubs) # calls2" by auto
  from Cons.IH [OF r] show ?case
    by (auto simp: eq published_by_def foldl_publish_queue foldl_publish_history
        foldl_publish_subscribers option.map_comp comp_def split: option.splits)
qed

lemma process_events_Some:
  "process_events fuel self w = Some (self', w', tr) \<Longrightarrow>
   event_queue self' = []
   \<and> map fst tr = event_queue self @ published_during tr
   \<and> event_history self' = map_option (\<lambda>h. h @ published_during tr) (event_history self)
   \<and> subscribers self' = subscribers self
   \<and> (\<forall>(e, calls) \<in> set tr. length calls = length (subscribers self (ev_type e)))"
proof (induction fuel arbitrary: self w self' w' tr)
  case 0
  then show ?case
    by (auto simp: published_during_def option.map_ident
        split: list.splits option.splits)
next
  case (Suc n)
  show ?case
  proof (cases "event_queue self")
    case Nil
    with Suc.prems show ?thesis
      by (auto simp: published_during_def option.map_ident
          split: option.splits)
  next
    case (Cons e rest)
    obtain self1 w1 calls where d: "dispatch_event (self\<lparr>event_queue := rest\<rparr>) e w = (self1, w1, calls)"
      by (cases "dispatch_event (self\<lparr>event_queue := rest\<rparr>) e w") auto
    from Suc.prems Cons d obtain tr2 where
      r: "process_events n self1 w1 = Some (self', w', tr2)" and tr: "tr = (e, calls) # tr2"
      by (auto simp: split: option.splits)
    from call_handlers_effect [OF d [unfolded dispatch_event_def]]
    have c: "event_queue self1 = rest @ published_by calls"
      "event_history self1 = map_option (\<lambda>h. h @ published_by calls) (event_history self)"
      "subscribers self1 = subscribers self"
      "length calls = length (subscribers self (ev_type e))" by auto
    from Suc.IH [OF r] c Cons tr show ?thesis
      by (auto simp: published_during_def option.map_comp comp_def split: option.splits)
  qed
qed

lemma publish_quiet: "publish (quiet_bus self) e = quiet_bus (publish self e)"
  by (simp add: publish_def quiet_bus_def)

lemma foldl_publish_quiet: "foldl publish (quiet_bus self) es = quiet_bus (foldl publish self es)"
  by (induction es arbitrary: self) (simp_all add: publish_quiet)

lemma call_handlers_quiet:
  "call_handlers hs e self w = (self', w', calls) \<Longrightarrow>
   call_handlers (map quiet hs) e (quiet_bus self) w
     = (quiet_bus self', w', map (\<lambda>(raised, pubs). (False, pubs)) calls)"
proof (induction hs arbitrary: self w self' w' calls)
  case Nil
  then show ?case by auto
next
  case (Cons h hs)
  obtain pubs w1 raised where h: "h e w = (pubs, w1, raised)" by (cases "h e w") auto
  obtain self2 w2 calls2 where r: "call_handlers hs e (foldl publish self pubs) w1 = (self2, w2, calls2)"
    by (cases "call_handlers hs e (foldl publish self pubs) w1") auto
  from Cons.prems h r have eq: "self' = self2" "w' = w2" "calls = (raised, pubs) # calls2" by auto
  from Cons.IH [OF r] h show ?case
    by (simp add: eq quiet_def foldl_publish_quiet)
qed

lemma process_events_quiet:
  "process_events fuel self w = Some (self', w', tr) \<Longrightarrow>
   process_events fuel (quiet_bus self) w = Some (quiet_bus self', w', unraised tr)"
proof (induction fuel arbitrary: self w self' w' tr)
  case 0
  then show ?case
    by (auto simp: quiet_bus_def unraised_def split: list.splits)
next
  case (Suc n)
  show ?case
  proof (cases "event_queue self")
    case Nil
    with Suc.prems show ?thesis
      by (auto simp: quiet_bus_def unraised_def)
  next
    case (Cons e rest)
    obtain self1 w1 calls where d: "dispatch_event (self\<lparr>event_queue := rest\<rparr>) e w = (self1, w1, calls)"
      by (cases "dispatch_event (self\<lparr>event_queue := rest\<rparr>) e w") auto
    from Suc.prems Cons d obtain tr2 where
      r: "process_events n self1 w1 = Some (self', w', tr2)" and tr: "tr = (e, calls) # tr2"
      by (auto simp: split: option.splits)
    have q: "quiet_bus self\<lparr>event_queue := rest\<rparr> = quiet_bus (self\<lparr>event_queue := rest\<rparr>)"
      by (simp add: quiet_bus_def)
    have "dispatch_event (quiet_bus self\<lparr>event_queue := rest\<rparr>) e w
            = (quiet_bus self1, w1, map (\<lambda>(raised, pubs). (False, pubs)) calls)"
      using call_handlers_quiet [OF d [unfolded dispatch_event_def]]
      unfolding q by (simp add: dispatch_event_def quiet_bus_def)
    moreover have "event_queue (quiet_bus self) = e # rest" using Cons by (simp add: quiet_bus_def)
    ultimately show ?thesis using Suc.IH [OF r] tr
      by (simp add: unraised_def)
  qed
qed

lemma call_handlers_ranks:
  assumes "\<forall>h \<in> set hs. \<forall>w. \<forall>e' \<in> set (fst (h e w)). rank e' < (rank e :: nat)"
    and "call_handlers hs e self w = (self', w', calls)"
  shows "\<forall>e' \<in> set (published_by calls). rank e' < rank e"
  using assms
proof (induction hs arbitrary: self w self' w' calls)
  case Nil
  then show ?case by (simp add: published_by_def)
next
  case (Cons h hs)
  obtain pubs w1 raised where h: "h e w = (pubs, w1, raised)" by (cases "h e w") auto
  obtain self2 w2 calls2 where r: "call_handlers hs e (foldl publish self pubs) w1 = (self2, w2, calls2)"
    by (cases "call_handlers hs e (foldl publish self pubs) w1") auto
  from Cons.prems h r have eq: "calls = (raised, pubs) # calls2" by auto
  from Cons.prems(1) h have "\<forall>e' \<in> set pubs. rank e' < rank e" by (metis fst_conv list.set_intros(1))
  moreover from Cons.prems(1) have "\<forall>h \<in> set hs. \<forall>w. \<forall>e' \<in> set (fst (h e w)). rank e' < rank e" by simp
  from Cons.IH [OF this r] have "\<forall>e' \<in> set (published_by calls2). rank e' < rank e" .
  ultimately show ?case by (auto simp: eq published_by_def)
qed

lemma drain_terminates_aux:
  fixes rank :: "'p event \<Rightarrow> nat"
  assumes ranked: "\<forall>e w. \<forall>h \<in> set (subs (ev_type e)). \<forall>e' \<in> set (fst (h e w)). rank e' < rank e"
  shows "\<forall>self w. subscribers self = subs \<and> mset (map rank (event_queue self)) = M
           \<longrightarrow> (\<exists>fuel r. process_events fuel (self :: ('p, 'w) event_bus) w = Some r)"
proof (induction M rule: wf_induct [OF wf_mult [OF wf_less]])
  case (1 M)
  show ?case
  proof (intro allI impI)
    fix self :: "('p, 'w) event_bus" and w
    assume a: "subscribers self = subs \<and> mset (map rank (event_queue self)) = M"
    show "\<exists>fuel r. process_events fuel self w = Some r"
    proof (cases "event_queue self")
      case Nil
      then have "process_events 0 self w = Some (self, w, [])"
        by simp
      then show ?thesis by blast
    next
      case (Cons e rest)
      obtain self1 w1 calls where d: "dispatch_event (self\<lparr>event_queue := rest\<rparr>) e w = (self1, w1, calls)"
        by (cases "dispatch_event (self\<lparr>event_queue := rest\<rparr>) e w") auto
      from call_handlers_effect [OF d [unfolded dispatch_event_def]]
      have c: "event_queue self1 = rest @ published_by calls" "subscribers self1 = subs"
        using a by auto
      have lower: "\<forall>e' \<in> set (published_by calls). rank e' < rank e"
        using call_handlers_ranks [OF _ d [unfolded dispatch_event_def]] ranked a by auto
      have "(mset (map rank rest) + mset (map rank (published_by calls)),
             mset (map rank rest) + {#rank e#}) \<in> mult {(x, y). x < y}"
        by (rule one_step_implies_mult) (use lower in auto)
      then have "(mset (map rank (event_queue self1)), M) \<in> mult {(x, y). x < y}"
        using c a Cons by (simp add: ac_simps)
      with 1 c obtain fuel r where "process_events fuel self1 w1 = Some r" by blast
      then have "\<exists>r. process_events (Suc fuel) self w = Some r"
        using Cons d by (cases r) auto
      then show ?thesis by blast
    qed
  qed
qed

lemma EventBus_init_history:
  "event_history (EventBus_init m) = (if m = ''backtest'' then Some [] else None)"
  by (simp add: EventBus_init_def)

text \<open>
  Claim C6. \<open>publish\<close> appends the event to the queue and, where a history is kept
  (a bus made in \<open>'backtest'\<close> mode), to the history; it changes nothing else and calls no
  handler. When a drain returns, the queue is empty and the events it dispatched are, in
  this order, the events that were queued when it started followed by every event a
  handler published during the drain: FIFO in the order of publication, nothing left
  behind. Every dispatched event reached each handler subscribed to its type, whichever
  of them raised, and a run in which no handler raises ends with the same queue, history
  and component state. A drain whose handlers only publish events of a lower rank than
  the event they handle returns.
\<close>

theorem event_bus_drain:
  fixes self :: "('p, 'w) event_bus" and rank :: "'p event \<Rightarrow> nat"
  shows "(event_queue (publish self e) = event_queue self @ [e]
      \<and> event_history (publish self e) = map_option (\<lambda>h. h @ [e]) (event_history self)
      \<and> subscribers (publish self e) = subscribers self)
   \<and> (process_events fuel self w = Some (self', w', tr) \<longrightarrow>
        event_queue self' = []
      \<and> map fst tr = event_queue self @ published_during tr
      \<and> event_history self' = map_option (\<lambda>h. h @ published_during tr) (event_history self)
      \<and> (\<forall>(e, calls) \<in> set tr. length calls = length (subscribers self (ev_type e)))
      \<and> process_events fuel (quiet_bus self) w = Some (quiet_bus self', w', unraised tr))
   \<and> ((\<forall>e w. \<forall>h \<in> set (subscribers self (ev_type e)). \<forall>e' \<in> set (fst (h e w)). rank e' < rank e)
        \<longrightarrow> (\<exists>fuel r. process_events fuel self w = Some r))"
proof (intro conjI impI)
  show "event_queue (publish self e) = event_queue self @ [e]" by (simp add: publish_def)
  show "event_history (publish self e) = map_option (\<lambda>h. h @ [e]) (event_history self)"
    by (simp add: publish_def split: option.splits)
  show "subscribers (publish self e) = subscribers self" by (simp add: publish_def)
next
  assume r: "process_events fuel self w = Some (self', w', tr)"
  from process_events_Some [OF r]
  show "event_queue self' = []"
    and "map fst tr = event_queue self @ published_during tr"
    and "event_history self' = map_option (\<lambda>h. h @ published_during tr) (event_history self)"
    and "\<forall>(e, calls) \<in> set tr. length calls = length (subscribers self (ev_type e))"
    by blast+
  from process_events_quiet [OF r]
  show "process_events fuel (quiet_bus self) w = Some (quiet_bus self', w', unraised tr)" .
next
  assume "\<forall>e w. \<forall>h \<in> set (subscribers self (ev_type e)). \<forall>e' \<in> set (fst (h e w)). rank e' < rank e"
  from drain_terminates_aux [OF this, of "mset (map rank (event_queue self))"]
  show "\<exists>fuel r. process_events fuel self w = Some r" by blast
qed

lemma demo_run:
  "\<exists>self' tr. process_events (Suc (Suc (Suc (Suc (Suc (Suc 0)))))) demo_bus [] = Some (self', [1, 2, 101, 102], tr)
     \<and> map (\<lambda>(e, calls). (ev_type e, ev_payload e, map fst calls)) tr =
         [(SIGNAL, 1, [True, False]), (SIGNAL, 2, [True, False]), (ORDER, 1, [False]), (ORDER, 2, [False]), (FILL, 1, []), (FILL, 2, [])]"
  by (simp add: demo_bus_def publish_def subscribe_def EventBus_init_def dispatch_event_def
      demo_failing_def demo_risk_def demo_execution_def)

lemma demo_ranked:
  "\<forall>e w. \<forall>h \<in> set (subscribers demo_bus (ev_type e)). \<forall>e' \<in> set (fst (h e w)).
     demo_rank e' < demo_rank e"
  by (auto simp: demo_bus_def publish_def subscribe_def EventBus_init_def demo_rank_def
      demo_failing_def demo_risk_def demo_execution_def split: if_splits)

theorem event_bus_drain_witness:
  "(\<exists>self' w' tr.
      process_events (Suc (Suc (Suc (Suc (Suc (Suc 0)))))) demo_bus [] = Some (self', w', tr)
      \<and> event_queue self' = []
      \<and> map fst tr = event_queue demo_bus @ published_during tr
      \<and> process_events (Suc (Suc (Suc (Suc (Suc (Suc 0)))))) (quiet_bus demo_bus) []
            = Some (quiet_bus self', w', unraised tr))
   \<and> (\<exists>fuel r. process_events fuel demo_bus [] = Some r)"
proof -
  from demo_run obtain self' tr where
    r: "process_events (Suc (Suc (Suc (Suc (Suc (Suc 0)))))) demo_bus [] = Some (self', [1, 2, 101, 102], tr)"
    by blast
  from event_bus_drain [of demo_bus "\<lparr>ev_type = FILL, ev_timestamp = 0, ev_payload = 0\<rparr>" "Suc (Suc (Suc (Suc (Suc (Suc 0)))))" "[]" self'
      "[1, 2, 101, 102]" tr demo_rank] r demo_ranked
  show ?thesis by blast
qed

section \<open>Performance calculator\<close>

lemma drawdown_scenario_max:
  "calculate_max_drawdown (scenario_curve d0) = Inr (- 1 / 10, - 10000, 4)"
  by (simp add: calculate_max_drawdown_def scenario_curve_def Let_def idxmin_def idxmax_def
    days_between_def upt_rec [of _ 6] eval_nat_numeral)

lemma drawdown_scenario:
  "calculate_drawdown (scenario_curve d0)
     = Inr \<lparr>max_drawdown = - 10000, max_drawdown_pct = - 10 / 100, avg_drawdown = - 1 / 15,
            max_dd_duration_days = 4\<rparr>"
  unfolding calculate_drawdown_def drawdown_scenario_max
  by (simp add: scenario_curve_def mean_def Let_def)

text \<open>
  Claim C7, amended. For the equity curve 100000, 95000, 90000, 95000, 100000, 105000 on
  six consecutive days \<open>d0, ..., d5\<close> the maximum drawdown is -10/100 (-10000 in money)
  and the reported duration is the number of days from \<open>d0\<close>, the peak before the
  trough, to \<open>d4\<close>, the first day on which the equity is back at that peak: 4 days.
\<close>

theorem max_drawdown_scenario:
  "calculate_max_drawdown (scenario_curve d0)
     = Inr (- 10 / 100, - 10000, days_between (d0 + 4 * 86400) d0)
   \<and> calculate_drawdown (scenario_curve d0)
     = Inr \<lparr>max_drawdown = - 10000, max_drawdown_pct = - 10 / 100, avg_drawdown = - 1 / 15,
            max_dd_duration_days = 4\<rparr>"
  by (simp add: drawdown_scenario drawdown_scenario_max days_between_def)

theorem max_drawdown_scenario_witness:
  "sorted_wrt (<) (map fst (scenario_curve 0))
   \<and> 0 \<notin> set (expanding_max (map snd (scenario_curve 0)))
   \<and> calculate_max_drawdown (scenario_curve 0) = Inr (- 10 / 100, - 10000, 4)
   \<and> days_between (fst (scenario_curve 0 ! 4)) (fst (scenario_curve 0 ! 0)) = 4"
proof -
  have "sorted_wrt (<) (map fst (scenario_curve 0))"
    and "0 \<notin> set (expanding_max (map snd (scenario_curve 0)))"
    and "days_between (fst (scenario_curve 0 ! 4)) (fst (scenario_curve 0 ! 0)) = 4"
    by (simp_all add: scenario_curve_def days_between_def)
  with max_drawdown_scenario [of 0] show ?thesis by (simp add: days_between_def)
qed

text \<open>
  The duration is not the number of days from \<open>d2\<close> (the trough) to \<open>d4\<close>, which is 2.
\<close>

theorem max_drawdown_scenario_counterexample:
  "calculate_max_drawdown (scenario_curve 0) = Inr (- 10 / 100, - 10000, 4)
   \<and> days_between (fst (scenario_curve 0 ! 4)) (fst (scenario_curve 0 ! 2)) = 2
   \<and> calculate_max_drawdown (scenario_curve 0)
       \<noteq> Inr (- 10 / 100, - 10000,
               days_between (fst (scenario_curve 0 ! 4)) (fst (scenario_curve 0 ! 2)))"
proof -
  have d: "days_between (fst (scenario_curve 0 ! 4)) (fst (scenario_curve 0 ! 2)) = 2"
    by (simp add: days_between_def scenario_curve_def)
  show ?thesis unfolding d drawdown_scenario_max by simp
qed

lemma empty_metrics_trades: "trades empty_metrics = zero_trade_metrics"
  by (simp add: empty_metrics_def zero_trade_metrics_def)

text \<open>
  Claim C8. On an equity curve of fewer than 2 points \<open>calculate_all\<close> returns, and
  returns the all-zero metrics of \<open>_empty_metrics\<close>, whatever the statistics would do.
  With no trade whose status is \<open>'CLOSED'\<close> the trade statistics return, and return the
  all-zero trade block, which is then the \<open>trades\<close> entry of whatever \<open>calculate_all\<close>
  returns.
\<close>

theorem metrics_degenerate:
  "(length (equity_curve self) < 2 \<longrightarrow> calculate_all stats self = Inr empty_metrics)
   \<and> (filter (\<lambda>t. tr_status t = Some ''CLOSED'') (pc_trades self) = [] \<longrightarrow>
        calculate_trade_stats (pc_trades self) = Inr zero_trade_metrics
        \<and> (\<forall>m. calculate_all stats self = Inr m \<longrightarrow> trades m = zero_trade_metrics))"
  by (auto simp: calculate_all_def calculate_trade_stats_def empty_metrics_def zero_trade_metrics_def
      split: sum.splits if_splits)

theorem metrics_degenerate_witness:
  "length (equity_curve one_point_calculator) < 2
   \<and> calculate_all constant_statistics one_point_calculator = Inr empty_metrics
   \<and> filter (\<lambda>t. tr_status t = Some ''CLOSED'') (pc_trades scenario_calculator) = []
   \<and> calculate_trade_stats (pc_trades scenario_calculator) = Inr zero_trade_metrics
   \<and> (\<exists>m. calculate_all constant_statistics scenario_calculator = Inr m
          \<and> trades m = zero_trade_metrics)"
proof -
  have a: "length (equity_curve one_point_calculator) < 2"
    by (simp add: one_point_calculator_def)
  have b: "filter (\<lambda>t. tr_status t = Some ''CLOSED'') (pc_trades scenario_calculator) = []"
    by (simp add: scenario_calculator_def open_trade_def)
  have "\<exists>m. calculate_all constant_statistics scenario_calculator = Inr m"
    using drawdown_scenario [of 0] b
    by (simp add: calculate_all_def scenario_calculator_def constant_statistics_def
        calculate_trade_stats_def scenario_curve_def)
  with a b metrics_degenerate [of one_point_calculator constant_statistics]
    metrics_degenerate [of scenario_calculator constant_statistics]
  show ?thesis by blast
qed

section \<open>Risk manager\<close>

lemma approve_after: "rm_after (approve self db signal uuid) = self"
  by (simp add: approve_def on_error_def Let_def split: sum.splits)

lemma reject_after: "rm_after (reject self db signal reason sev) = self"
  by (simp add: reject_def Let_def)

lemma get_open_positions_breaker:
  "circuit_breaker_active (snd (get_open_positions self db now)) = circuit_breaker_active self"
  by (simp add: get_open_positions_def Let_def split: sum.splits)

lemma on_signal_tripped:
  assumes "circuit_breaker_active self" and "signal_type signal \<noteq> ''CLOSE''"
  shows "on_signal self db now uuid signal
           = reject self db signal (Some BreakerActive) ''CRITICAL''"
  using assms by (simp add: on_signal_def check_circuit_breakers_def)

lemma on_signal_keeps_breaker:
  assumes "circuit_breaker_active self"
  shows "circuit_breaker_active (rm_after (on_signal self db now uuid signal))"
proof (cases "signal_type signal = ''CLOSE''")
  case True
  with assms show ?thesis by (simp add: on_signal_def approve_after)
next
  case False
  with assms show ?thesis by (simp add: on_signal_tripped reject_after)
qed

lemma reset_daily_tracking_breaker:
  "circuit_breaker_active (reset_daily_tracking self db now) = circuit_breaker_active self"
  using get_open_positions_breaker [of self db now]
  by (auto simp: reset_daily_tracking_def get_portfolio_value_def Let_def split: prod.splits)

lemma rm_step_keeps_breaker:
  assumes "circuit_breaker_active self" and "a \<noteq> ResetCircuitBreaker"
  shows "circuit_breaker_active (fst (fst (rm_step (self, db) a)))"
  using assms
  by (cases a) (simp_all add: on_signal_keeps_breaker reset_daily_tracking_breaker Let_def)

lemma rm_run_sticky:
  assumes "circuit_breaker_active (fst s)" and "ResetCircuitBreaker \<notin> set acts"
  shows "circuit_breaker_active (fst (fst (rm_run s acts)))
       \<and> (\<forall>i < length acts. \<forall>now uuid signal.
             acts ! i = OnSignal now uuid signal \<and> signal_type signal \<noteq> ''CLOSE'' \<longrightarrow>
             (\<exists>alert. snd (rm_run s acts) ! i = [RiskAlert alert]
                     \<and> severity alert = ''CRITICAL''))"
  using assms
proof (induction acts arbitrary: s)
  case Nil
  then show ?case by simp
next
  case (Cons a acts)
  obtain self db where s: "s = (self, db)" by (cases s)
  obtain s1 out where st: "rm_step s a = (s1, out)" by (cases "rm_step s a")
  obtain s2 outs where r: "rm_run s1 acts = (s2, outs)" by (cases "rm_run s1 acts")
  from Cons.prems have a: "a \<noteq> ResetCircuitBreaker" and rest: "ResetCircuitBreaker \<notin> set acts"
    by auto
  from Cons.prems(1) a have act: "circuit_breaker_active (fst s1)"
    using rm_step_keeps_breaker [of self a db] st s by simp
  from Cons.IH [OF act rest] r have ih:
    "circuit_breaker_active (fst s2)"
    "\<And>i now uuid signal. i < length acts \<Longrightarrow> acts ! i = OnSignal now uuid signal \<Longrightarrow>
       signal_type signal \<noteq> ''CLOSE'' \<Longrightarrow>
       \<exists>alert. outs ! i = [RiskAlert alert] \<and> severity alert = ''CRITICAL''"
    by auto
  have head: "\<exists>alert. out = [RiskAlert alert] \<and> severity alert = ''CRITICAL''"
    if "a = OnSignal now uuid signal" "signal_type signal \<noteq> ''CLOSE''" for now uuid signal
    using that st s Cons.prems(1)
    by (auto simp: on_signal_tripped reject_def create_risk_alert_def Let_def)
  show ?case
  proof (intro conjI allI impI)
    show "circuit_breaker_active (fst (fst (rm_run s (a # acts))))"
      using st r ih(1) by simp
  next
    fix i now uuid signal
    assume i: "i < length (a # acts)"
      and e: "(a # acts) ! i = OnSignal now uuid signal \<and> signal_type signal \<noteq> ''CLOSE''"
    show "\<exists>alert. snd (rm_run s (a # acts)) ! i = [RiskAlert alert] \<and> severity alert = ''CRITICAL''"
    proof (cases i)
      case 0
      with e head st r show ?thesis by simp
    next
      case (Suc j)
      with i e ih(2) [of j now uuid signal] st r show ?thesis by simp
    qed
  qed
qed

lemma reject_logs:
  "db_ok db \<Longrightarrow>
   db_risk_events (rm_db_after (reject self db signal reason sev))
     = db_risk_events db @
       [\<lparr>re_event_type = ''SIGNAL_REJECTED'', re_severity = sev, re_description = reason,
         re_symbol = sig_symbol signal, re_asset_type = sig_asset_type signal,
         re_strategy_id = sig_strategy_id signal\<rparr>]"
  by (simp add: reject_def log_risk_event_def db_log_risk_event_def create_risk_alert_def Let_def)

lemma on_error_does_not_log: "rm_db_after (on_error self db signal e) = db"
  by (simp add: on_error_def Let_def)

text \<open>The branches of \<open>_on_signal\<close> for a signal that is not a \<open>'CLOSE'\<close>, in order.\<close>

lemma on_signal_breaker_branch:
  assumes "signal_type signal \<noteq> ''CLOSE''"
    and "check_circuit_breakers self = ((False, reason), self1)"
  shows "on_signal self db now uuid signal = reject self1 db signal reason ''CRITICAL''"
  using assms by (simp add: on_signal_def)

lemma on_signal_position_branch:
  assumes "signal_type signal \<noteq> ''CLOSE''"
    and "check_circuit_breakers self = ((True, r0), self1)"
    and "check_position_risk self1 signal = Inr (False, reason)"
  shows "on_signal self db now uuid signal = reject self1 db signal reason ''HIGH''"
  using assms by (simp add: on_signal_def)

lemma on_signal_exception_branch:
  assumes "signal_type signal \<noteq> ''CLOSE''"
    and "check_circuit_breakers self = ((True, r0), self1)"
    and "check_position_risk self1 signal = Inl e"
  shows "on_signal self db now uuid signal = on_error self1 db signal e"
  using assms by (simp add: on_signal_def)

lemma on_signal_symbol_branch:
  assumes "signal_type signal \<noteq> ''CLOSE''"
    and "check_circuit_breakers self = ((True, r0), self1)"
    and "check_position_risk self1 signal = Inr (True, r1)"
    and "check_symbol_risk self1 db (sig_symbol signal)
           ((case meta_quantity signal of None \<Rightarrow> 0 | Some q \<Rightarrow> q) * portfolio_value self1)
         = (False, reason)"
  shows "on_signal self db now uuid signal = reject self1 db signal reason ''MEDIUM''"
  using assms by (simp add: on_signal_def)

lemma on_signal_portfolio_branch:
  assumes "signal_type signal \<noteq> ''CLOSE''"
    and "check_circuit_breakers self = ((True, r0), self1)"
    and "check_position_risk self1 signal = Inr (True, r1)"
    and "check_symbol_risk self1 db (sig_symbol signal)
           ((case meta_quantity signal of None \<Rightarrow> 0 | Some q \<Rightarrow> q) * portfolio_value self1)
         = (True, r2)"
    and "check_portfolio_risk self1 db now
           ((case meta_quantity signal of None \<Rightarrow> 0 | Some q \<Rightarrow> q) * portfolio_value self1)
         = ((False, reason), self2)"
  shows "on_signal self db now uuid signal = reject self2 db signal reason ''MEDIUM''"
  using assms by (simp add: on_signal_def)

lemma on_signal_approved_branch:
  assumes "signal_type signal \<noteq> ''CLOSE''"
    and "check_circuit_breakers self = ((True, r0), self1)"
    and "check_position_risk self1 signal = Inr (True, r1)"
    and "check_symbol_risk self1 db (sig_symbol signal)
           ((case meta_quantity signal of None \<Rightarrow> 0 | Some q \<Rightarrow> q) * portfolio_value self1)
         = (True, r2)"
    and "check_portfolio_risk self1 db now
           ((case meta_quantity signal of None \<Rightarrow> 0 | Some q \<Rightarrow> q) * portfolio_value self1)
         = ((True, r3), self2)"
    and "sig_price signal \<noteq> 0"
  shows "\<exists>order. create_order_event self2 signal uuid = Inr order
          \<and> on_signal self db now uuid signal
              = \<lparr>rm_after = self2, rm_db_after = db, rm_published = [Order order]\<rparr>"
  using assms by (simp add: on_signal_def approve_def create_order_event_def Let_def)

lemma on_signal_publishes_one: "\<exists>ev. rm_published (on_signal self db now uuid signal) = [ev]"
  by (auto simp: on_signal_def approve_def reject_def on_error_def Let_def
      split: sum.splits prod.splits if_splits)

text \<open>
  Claim C3. From a state in which the circuit breaker is active, along any sequence of
  signals, assignments to the equity figures, database changes and daily resets that
  contains no \<open>reset_circuit_breaker\<close>: the breaker is still active at the end, and every
  signal whose type is not \<open>'CLOSE'\<close> published exactly one event, a CRITICAL RiskAlert,
  hence no Order, whatever the portfolio value had become. No step other than
  \<open>reset_circuit_breaker\<close> leaves the breaker inactive, and \<open>reset_circuit_breaker\<close> does.
\<close>

theorem breaker_sticky:
  assumes "circuit_breaker_active self"
  shows "(ResetCircuitBreaker \<notin> set acts \<longrightarrow>
            circuit_breaker_active (fst (fst (rm_run (self, db) acts)))
          \<and> (\<forall>i < length acts. \<forall>now uuid signal.
                acts ! i = OnSignal now uuid signal \<and> signal_type signal \<noteq> ''CLOSE'' \<longrightarrow>
                (\<exists>alert. snd (rm_run (self, db) acts) ! i = [RiskAlert alert]
                        \<and> severity alert = ''CRITICAL'')))
       \<and> (a \<noteq> ResetCircuitBreaker \<longrightarrow> circuit_breaker_active (fst (fst (rm_step (self, db) a))))
       \<and> \<not> circuit_breaker_active (fst (fst (rm_step (self, db) ResetCircuitBreaker)))"
proof -
  have run: "ResetCircuitBreaker \<notin> set acts \<longrightarrow>
            circuit_breaker_active (fst (fst (rm_run (self, db) acts)))
          \<and> (\<forall>i < length acts. \<forall>now uuid signal.
                acts ! i = OnSignal now uuid signal \<and> signal_type signal \<noteq> ''CLOSE'' \<longrightarrow>
                (\<exists>alert. snd (rm_run (self, db) acts) ! i = [RiskAlert alert]
                        \<and> severity alert = ''CRITICAL''))"
    using assms rm_run_sticky [of "(self, db)" acts] by simp
  have step: "a \<noteq> ResetCircuitBreaker \<longrightarrow>
                circuit_breaker_active (fst (fst (rm_step (self, db) a)))"
    using assms rm_step_keeps_breaker [of self a db] by simp
  have reset: "\<not> circuit_breaker_active (fst (fst (rm_step (self, db) ResetCircuitBreaker)))"
    by (simp add: reset_circuit_breaker_def)
  from run step reset show ?thesis by (intro conjI)
qed

lemma tripped_state_active: "circuit_breaker_active (fst tripped_state)"
  by (simp add: tripped_state_def test_manager_def RiskManager_init_def default_risk_config_def
      config_get_def test_signal_def on_signal_def check_circuit_breakers_def reject_def Let_def)

theorem breaker_sticky_witness:
  "circuit_breaker_active (fst tripped_state)
   \<and> ResetCircuitBreaker \<notin> set recovery_actions
   \<and> circuit_breaker_active (fst (fst (rm_run tripped_state recovery_actions)))
   \<and> (\<exists>alert. snd (rm_run tripped_state recovery_actions) ! 1 = [RiskAlert alert]
             \<and> severity alert = ''CRITICAL'')
   \<and> (\<exists>alert. snd (rm_run tripped_state recovery_actions) ! 3 = [RiskAlert alert]
             \<and> severity alert = ''CRITICAL'')"
proof -
  have no_reset: "ResetCircuitBreaker \<notin> set recovery_actions"
    by (simp add: recovery_actions_def)
  have s1: "recovery_actions ! 1 = OnSignal 1 ''0000000B'' test_signal"
    and s3: "recovery_actions ! 3 = OnSignal 3 ''0000000C'' test_signal"
    and len: "length recovery_actions = 4"
    and ty: "signal_type test_signal \<noteq> ''CLOSE''"
    by (simp_all add: recovery_actions_def test_signal_def)
  from breaker_sticky [OF tripped_state_active, of recovery_actions "snd tripped_state"]
    no_reset
  have "circuit_breaker_active (fst (fst (rm_run tripped_state recovery_actions)))"
    and all: "\<forall>i < length recovery_actions. \<forall>now uuid signal.
           recovery_actions ! i = OnSignal now uuid signal \<and> signal_type signal \<noteq> ''CLOSE'' \<longrightarrow>
           (\<exists>alert. snd (rm_run tripped_state recovery_actions) ! i = [RiskAlert alert]
                   \<and> severity alert = ''CRITICAL'')"
    by simp_all
  moreover from all [rule_format, of 1 1 "''0000000B''" test_signal] s1 ty len
  have "\<exists>alert. snd (rm_run tripped_state recovery_actions) ! 1 = [RiskAlert alert]
             \<and> severity alert = ''CRITICAL''"
    by simp
  moreover from all [rule_format, of 3 3 "''0000000C''" test_signal] s3 ty len
  have "\<exists>alert. snd (rm_run tripped_state recovery_actions) ! 3 = [RiskAlert alert]
             \<and> severity alert = ''CRITICAL''"
    by simp
  ultimately show ?thesis using tripped_state_active no_reset by blast
qed

text \<open>
  Claim C4, amended. A signal whose type is \<open>'CLOSE'\<close> and whose price is not zero runs
  none of the four checks, whatever the state of the breaker: the risk manager and the
  database are as before, and the one event published is a MARKET SELL Order for the
  signal's symbol. A signal whose type is \<open>'EXIT'\<close> is validated like every other signal.
\<close>

theorem close_bypasses_validation:
  assumes "signal_type signal = ''CLOSE''" and "sig_price signal \<noteq> 0"
  shows "on_signal self db now uuid signal =
           \<lparr>rm_after = self, rm_db_after = db,
            rm_published =
              [Order \<lparr>order_id = ''ORD-'' @ uuid, ord_symbol = sig_symbol signal,
                      ord_asset_type = sig_asset_type signal, ord_side = ''SELL'',
                      ord_order_type = ''MARKET'',
                      ord_quantity = (case meta_quantity signal of None \<Rightarrow> 0 | Some q \<Rightarrow> q)
                                       * portfolio_value self / sig_price signal,
                      ord_price = None, ord_stop_price = None,
                      ord_strategy_id = sig_strategy_id signal, ord_position_id = None\<rparr>]\<rparr>"
  using assms by (simp add: on_signal_def approve_def create_order_event_def Let_def)

theorem close_bypasses_validation_witness:
  "signal_type close_signal = ''CLOSE'' \<and> sig_price close_signal \<noteq> 0
   \<and> circuit_breaker_active tripped_manager
   \<and> rm_after (on_signal tripped_manager empty_database 0 ''0000000A'' close_signal) = tripped_manager
   \<and> (\<exists>order. rm_published (on_signal tripped_manager empty_database 0 ''0000000A'' close_signal)
                 = [Order order] \<and> ord_side order = ''SELL'')"
proof -
  have a: "signal_type close_signal = ''CLOSE''" and b: "sig_price close_signal \<noteq> 0"
    by (simp_all add: close_signal_def test_signal_def)
  have c: "circuit_breaker_active tripped_manager" by (simp add: tripped_manager_def)
  from close_bypasses_validation [OF a b, of tripped_manager empty_database 0 "''0000000A''"] a b c
  show ?thesis by simp
qed

text \<open>
  An \<open>'EXIT'\<close> signal meets the circuit breaker like any other signal, and a \<open>'CLOSE'\<close>
  signal whose price is zero ends in the \<open>except\<close> branch: neither publishes an Order.
\<close>

theorem close_bypasses_validation_counterexample:
  "rm_published (on_signal tripped_manager empty_database 0 ''0000000A'' exit_signal)
     = [RiskAlert (create_risk_alert tripped_manager exit_signal (Some BreakerActive) ''CRITICAL'')]
   \<and> rm_published (on_signal test_manager empty_database 0 ''0000000A'' zero_price_close)
     = [RiskAlert (create_risk_alert test_manager zero_price_close
                     (Some (ProcessingError ZeroDivisionError)) ''HIGH'')]"
  by (simp add: on_signal_def check_circuit_breakers_def reject_def approve_def on_error_def
      create_order_event_def tripped_manager_def exit_signal_def zero_price_close_def
      close_signal_def test_signal_def Let_def)

text \<open>
  Claim C5 at a signal whose price is zero: the position check divides by the price, the
  \<open>except\<close> branch publishes a HIGH alert, and the risk-event log stays empty, while the
  rejection of an oversized position by the same manager is logged.
\<close>

theorem exception_rejection_not_logged:
  "rm_published (on_signal test_manager empty_database 0 ''0000000A'' zero_price_signal)
     = [RiskAlert (create_risk_alert test_manager zero_price_signal
                     (Some (ProcessingError ZeroDivisionError)) ''HIGH'')]
   \<and> db_risk_events (rm_db_after
        (on_signal test_manager empty_database 0 ''0000000A'' zero_price_signal)) = []
   \<and> map re_severity (db_risk_events (rm_db_after
        (on_signal test_manager empty_database 0 ''0000000A'' oversized_signal))) = [''HIGH'']"
  by (simp add: on_signal_def check_circuit_breakers_def check_position_risk_def reject_def
      on_error_def log_risk_event_def db_log_risk_event_def create_risk_alert_def
      test_manager_def RiskManager_init_def default_risk_config_def config_get_def
      zero_price_signal_def oversized_signal_def test_signal_def empty_database_def Let_def)

text \<open>
  Claim C9. The symbol check answers the same for two databases that are both readable
  (or both not) and hold the same open notional in the symbol, in however many
  positions, under the same portfolio value, the same limit and the same new exposure.
\<close>

theorem symbol_exposure_depends_on_total:
  assumes "db_ok db1 = db_ok db2"
    and "symbol_notional db1 symb = symbol_notional db2 symb"
    and "portfolio_value self1 = portfolio_value self2"
    and "max_symbol_exposure self1 = max_symbol_exposure self2"
  shows "fst (check_symbol_risk self1 db1 symb new_exposure)
       = fst (check_symbol_risk self2 db2 symb new_exposure)"
  using assms
  by (simp add: check_symbol_risk_def open_rows_of_symbol_def symbol_notional_def Let_def)

theorem symbol_exposure_depends_on_total_witness:
  "db_ok one_position_db = db_ok two_positions_db
   \<and> symbol_notional one_position_db ''BTC/USDT'' = symbol_notional two_positions_db ''BTC/USDT''
   \<and> fst (check_symbol_risk test_manager one_position_db ''BTC/USDT'' 8000)
       = fst (check_symbol_risk test_manager two_positions_db ''BTC/USDT'' 8000)
   \<and> \<not> fst (check_symbol_risk test_manager two_positions_db ''BTC/USDT'' 8000)
   \<and> fst (check_symbol_risk test_manager one_position_db ''BTC/USDT'' 6000)
       = fst (check_symbol_risk test_manager two_positions_db ''BTC/USDT'' 6000)
   \<and> fst (check_symbol_risk test_manager two_positions_db ''BTC/USDT'' 6000)"
proof -
  have a: "db_ok one_position_db = db_ok two_positions_db"
    by (simp add: one_position_db_def two_positions_db_def)
  have b: "symbol_notional one_position_db ''BTC/USDT'' = symbol_notional two_positions_db ''BTC/USDT''"
    by (simp add: symbol_notional_def one_position_db_def two_positions_db_def open_row_def)
  have c: "\<not> fst (check_symbol_risk test_manager two_positions_db ''BTC/USDT'' 8000)"
    "fst (check_symbol_risk test_manager two_positions_db ''BTC/USDT'' 6000)"
    by (simp_all add: check_symbol_risk_def open_rows_of_symbol_def two_positions_db_def
        empty_database_def open_row_def test_manager_def RiskManager_init_def
        default_risk_config_def config_get_def Let_def)
  from symbol_exposure_depends_on_total [OF a b refl refl, of test_manager 8000]
    symbol_exposure_depends_on_total [OF a b refl refl, of test_manager 6000] a b c
  show ?thesis by simp
qed

end
